theory Spec2Isabelle
  imports Main "HOL-Library.Char_ord" "HOL-Library.List_Lexorder"
begin

section \<open>The per-block variable container \<open>MeshBlockData<T>\<close>\<close>

text \<open>
  The development embeds \<^verbatim>\<open>src/interface/meshblock_data.hpp\<close>. A
  \<^verbatim>\<open>std::shared_ptr\<close> to a variable is an address into a store of variable
  objects, so that two containers holding the same address alias one object. A
  \<^verbatim>\<open>throw\<close> is a value of type \<open>error\<close>; an operation that mutates the
  container returns the error (if any) together with the state reached at the throw.
\<close>

subsection \<open>Errors\<close>

text \<open>
  The header throws \<^verbatim>\<open>std::runtime_error\<close> everywhere (directly, or through
  \<^verbatim>\<open>PARTHENON_THROW\<close> and \<^verbatim>\<open>PARTHENON_REQUIRE_THROWS\<close>). Each throw
  site is tagged with the error kind the specification gives it and carries the message of
  the source.
\<close>

datatype error =
    NotFoundError string
  | DuplicateNameError string
  | InvalidOperationError string
  | StaleReferenceError string
  | UnsupportedOperationError string

subsection \<open>\<^verbatim>\<open>std::map<std::string, V>\<close>\<close>

text \<open>
  An ordered map is an association list; iteration visits it front to back.
  \<open>map_assign\<close> is \<^verbatim>\<open>m[k] = v\<close>: it overwrites the entry of an equal key and
  otherwise inserts the entry at its place in the key order (\<^verbatim>\<open>std::string\<close>
  compares bytewise lexicographically, which is the order of \<open>string\<close> here).
\<close>

type_synonym addr = nat

type_synonym 'v std_map = "(string \<times> 'v) list"

fun map_assign :: "string \<Rightarrow> 'v \<Rightarrow> 'v std_map \<Rightarrow> 'v std_map" where
  "map_assign k v [] = [(k, v)]"
| "map_assign k v ((k', v') # m) =
     (if k < k' then (k, v) # (k', v') # m
      else if k = k' then (k, v) # m
      else (k', v') # map_assign k v m)"

definition map_find :: "string \<Rightarrow> 'v std_map \<Rightarrow> 'v option" where
  "map_find k m = map_of m k"

definition map_count :: "string \<Rightarrow> 'v std_map \<Rightarrow> nat" where
  "map_count k m = (case map_find k m of None \<Rightarrow> 0 | Some _ \<Rightarrow> 1)"

definition map_keys :: "'v std_map \<Rightarrow> string list" where
  "map_keys m = map fst m"

definition map_erase :: "string \<Rightarrow> 'v std_map \<Rightarrow> 'v std_map" where
  "map_erase k m = filter (\<lambda>e. fst e \<noteq> k) m"

text \<open>The representation invariant of \<^verbatim>\<open>std::map\<close>: keys strictly increasing.\<close>

definition map_ok :: "'v std_map \<Rightarrow> bool" where
  "map_ok m = sorted_wrt (<) (map_keys m)"

subsection \<open>Variables\<close>

text \<open>
  \<^verbatim>\<open>interface/variable.hpp\<close> is not part of the sources at hand; the container
  only uses \<^verbatim>\<open>label()\<close>, \<^verbatim>\<open>IsSet\<close>, \<^verbatim>\<open>IsSparse\<close>,
  \<^verbatim>\<open>IsAllocated\<close>, \<^verbatim>\<open>Allocate\<close> and \<^verbatim>\<open>AllocateCopy\<close> of a
  variable.
\<close>

datatype MetadataFlag = OneCopy | Sparse | OtherFlag nat

datatype alloc_state = Unallocated | Allocated

text \<open>
  Modelled from the spec: the class \<^verbatim>\<open>CellVariable<T>\<close> (the dense
  \<^emph>\<open>VariableRecord\<close>): a label, an immutable set of capability tags, an allocation
  state and one numeric buffer.
\<close>

record 't CellVariable =
  label :: string
  metadata :: "MetadataFlag set"
  alloc :: alloc_state
  data :: "'t list"

text \<open>
  Modelled from the spec: the class \<^verbatim>\<open>FaceVariable<T>\<close> (the face-located
  \<^emph>\<open>VariableRecord\<close>): as above, with one buffer per spatial direction.
\<close>

record 't FaceVariable =
  flabel :: string
  fmetadata :: "MetadataFlag set"
  fdata :: "'t list list"

definition IsSet :: "MetadataFlag \<Rightarrow> ('t, 'z) CellVariable_scheme \<Rightarrow> bool" where
  "IsSet f v = (f \<in> metadata v)"

definition fIsSet :: "MetadataFlag \<Rightarrow> ('t, 'z) FaceVariable_scheme \<Rightarrow> bool" where
  "fIsSet f v = (f \<in> fmetadata v)"

text \<open>Modelled from the spec: \<^verbatim>\<open>CellVariable::IsSparse\<close>, "tagged Sparse".\<close>

definition IsSparse :: "('t, 'z) CellVariable_scheme \<Rightarrow> bool" where
  "IsSparse v = IsSet Sparse v"

text \<open>Modelled from the spec: \<^verbatim>\<open>CellVariable::IsAllocated\<close>.\<close>

definition var_IsAllocated :: "('t, 'z) CellVariable_scheme \<Rightarrow> bool" where
  "var_IsAllocated v = (alloc v = Allocated)"

text \<open>
  Modelled from the spec: \<^verbatim>\<open>CellVariable::Allocate\<close>, "transitions a Sparse
  record from Unallocated to Allocated"; on an allocated variable "no error, no change".
  The spec gives neither the size nor the initial content of the materialised storage, so
  the buffer field is left as it is.
\<close>

definition Allocate :: "'t CellVariable \<Rightarrow> 't CellVariable" where
  "Allocate v = (case alloc v of Allocated \<Rightarrow> v | Unallocated \<Rightarrow> v\<lparr>alloc := Allocated\<rparr>)"

subsection \<open>The container\<close>

text \<open>
  The data members of \<^verbatim>\<open>MeshBlockData<T>\<close>. \<open>pmy_block\<close> is the
  \<^verbatim>\<open>std::weak_ptr<MeshBlock>\<close>: \<open>None\<close> is the empty weak pointer of a
  default-constructed container. The members \<^verbatim>\<open>varVector_\<close>, \<^verbatim>\<open>varMap_\<close>,
  \<^verbatim>\<open>faceVector_\<close> and \<^verbatim>\<open>faceMap_\<close> lose their trailing underscore, which a
  record field cannot carry. The three pack caches are left out: no function defined in
  the header reads or writes them.
\<close>

record MeshBlockData =
  pmy_block :: "addr option"
  varVector :: "addr list"
  faceVector :: "addr list"
  varMap :: "addr std_map"
  faceMap :: "addr std_map"

text \<open>\<^verbatim>\<open>MeshBlockData<T>() = default\<close>\<close>

definition empty_container :: MeshBlockData where
  "empty_container =
     \<lparr>pmy_block = None, varVector = [], faceVector = [], varMap = [], faceMap = []\<rparr>"

text \<open>
  \<^verbatim>\<open>void Add(std::shared_ptr<CellVariable<T>> var)\<close> and its face overload; \<open>cs\<close>
  is the store the pointer is dereferenced in for \<^verbatim>\<open>var->label()\<close>.
\<close>

definition Add_cell :: "(addr \<Rightarrow> 't CellVariable) \<Rightarrow> addr \<Rightarrow> MeshBlockData \<Rightarrow> MeshBlockData" where
  "Add_cell cs var c =
     c\<lparr>varVector := varVector c @ [var],
       varMap := map_assign (label (cs var)) var (varMap c)\<rparr>"

definition Add_face :: "(addr \<Rightarrow> 't FaceVariable) \<Rightarrow> addr \<Rightarrow> MeshBlockData \<Rightarrow> MeshBlockData" where
  "Add_face fs var c =
     c\<lparr>faceVector := faceVector c @ [var],
       faceMap := map_assign (flabel (fs var)) var (faceMap c)\<rparr>"

definition HasCellVariable :: "string \<Rightarrow> MeshBlockData \<Rightarrow> bool" where
  "HasCellVariable l c = (map_count l (varMap c) > 0)"

text \<open>
  \<^verbatim>\<open>GetCellVarPtr\<close> is a \<^verbatim>\<open>const\<close> member that returns the map entry by
  non-const reference (line 186), which the const map does not give; what it returns is
  the pointer stored under the label.
\<close>

definition GetCellVarPtr :: "string \<Rightarrow> MeshBlockData \<Rightarrow> error + addr" where
  "GetCellVarPtr l c =
     (case map_find l (varMap c) of
        None \<Rightarrow> Inl (NotFoundError ([CHR 0x0A] @ l @ '' array not found in Get()'' @ [CHR 0x0A]))
      | Some p \<Rightarrow> Inr p)"

text \<open>\<^verbatim>\<open>Get(label)\<close> dereferences the pointer: the object itself, not a copy.\<close>

definition Get :: "string \<Rightarrow> MeshBlockData \<Rightarrow> (addr \<Rightarrow> 't CellVariable) \<Rightarrow> error + 't CellVariable" where
  "Get l c cs = (case GetCellVarPtr l c of Inl e \<Rightarrow> Inl e | Inr p \<Rightarrow> Inr (cs p))"

definition IsAllocated :: "string \<Rightarrow> MeshBlockData \<Rightarrow> (addr \<Rightarrow> 't CellVariable) \<Rightarrow> bool" where
  "IsAllocated l c cs =
     (case map_find l (varMap c) of None \<Rightarrow> False | Some p \<Rightarrow> var_IsAllocated (cs p))"

definition Contains :: "string \<Rightarrow> MeshBlockData \<Rightarrow> bool" where
  "Contains name c =
     (if map_find name (varMap c) \<noteq> None then True
      else if map_find name (faceMap c) \<noteq> None then True
      else False)"

text \<open>
  \<^verbatim>\<open>operator==\<close>: both key vectors are filled from the dense map and then from the
  face map, in iteration order, and compared as vectors.
\<close>

definition keys_of :: "MeshBlockData \<Rightarrow> string list" where
  "keys_of c = map_keys (varMap c) @ map_keys (faceMap c)"

definition container_eq :: "MeshBlockData \<Rightarrow> MeshBlockData \<Rightarrow> bool" where
  "container_eq a b = (keys_of a = keys_of b)"

text \<open>The set of variable labels of a container, dense and face together.\<close>

definition label_set :: "MeshBlockData \<Rightarrow> string set" where
  "label_set c = set (map_keys (varMap c)) \<union> set (map_keys (faceMap c))"

subsection \<open>The owning mesh block\<close>

text \<open>
  \<open>live\<close> is the set of addresses of the mesh blocks that still exist. A weak pointer
  is expired when it is empty or its block is gone; it holds an address and no share of the
  ownership, so whether a block is alive never depends on a container.
\<close>

definition expired :: "addr option \<Rightarrow> addr set \<Rightarrow> bool" where
  "expired wp live = (case wp of None \<Rightarrow> True | Some a \<Rightarrow> a \<notin> live)"

text \<open>
  \<^verbatim>\<open>GetBlockPointer\<close>. \<^verbatim>\<open>pmy_block.lock()\<close> of a pointer that is not expired is
  the shared pointer to its address.
\<close>

definition GetBlockPointer :: "MeshBlockData \<Rightarrow> addr set \<Rightarrow> error + addr" where
  "GetBlockPointer c live =
     (if expired (pmy_block c) live then Inl (StaleReferenceError ''Invalid pointer to MeshBlock!'')
      else Inr (the (pmy_block c)))"

definition GetParentPointer :: "MeshBlockData \<Rightarrow> addr set \<Rightarrow> error + addr" where
  "GetParentPointer c live = GetBlockPointer c live"

text \<open>
  \<^verbatim>\<open>mesh/meshblock.hpp\<close> and \<^verbatim>\<open>mesh/domain.hpp\<close> are not part of the sources
  at hand: the block type \<open>'b\<close>, \<^verbatim>\<open>MeshBlock::SetAllowedDt\<close> and the three
  \<^verbatim>\<open>cellbounds.GetBounds\<close> functions are parameters. \<open>bs\<close> is the store of
  block objects.
\<close>

definition SetAllowedDt ::
  "('r \<Rightarrow> 'b \<Rightarrow> 'b) \<Rightarrow> 'r \<Rightarrow> MeshBlockData \<Rightarrow> addr set \<Rightarrow> (addr \<Rightarrow> 'b) \<Rightarrow> error option \<times> (addr \<Rightarrow> 'b)" where
  "SetAllowedDt block_SetAllowedDt dt c live bs =
     (case GetBlockPointer c live of
        Inl e \<Rightarrow> (Some e, bs)
      | Inr a \<Rightarrow> (None, bs(a := block_SetAllowedDt dt (bs a))))"

definition GetBoundsI ::
  "('b \<Rightarrow> 'd \<Rightarrow> 'i) \<Rightarrow> 'd \<Rightarrow> MeshBlockData \<Rightarrow> addr set \<Rightarrow> (addr \<Rightarrow> 'b) \<Rightarrow> error + 'i" where
  "GetBoundsI cellbounds_GetBoundsI domain c live bs =
     (case GetBlockPointer c live of
        Inl e \<Rightarrow> Inl e
      | Inr a \<Rightarrow> Inr (cellbounds_GetBoundsI (bs a) domain))"

definition GetBoundsJ ::
  "('b \<Rightarrow> 'd \<Rightarrow> 'i) \<Rightarrow> 'd \<Rightarrow> MeshBlockData \<Rightarrow> addr set \<Rightarrow> (addr \<Rightarrow> 'b) \<Rightarrow> error + 'i" where
  "GetBoundsJ cellbounds_GetBoundsJ domain c live bs =
     (case GetBlockPointer c live of
        Inl e \<Rightarrow> Inl e
      | Inr a \<Rightarrow> Inr (cellbounds_GetBoundsJ (bs a) domain))"

definition GetBoundsK ::
  "('b \<Rightarrow> 'd \<Rightarrow> 'i) \<Rightarrow> 'd \<Rightarrow> MeshBlockData \<Rightarrow> addr set \<Rightarrow> (addr \<Rightarrow> 'b) \<Rightarrow> error + 'i" where
  "GetBoundsK cellbounds_GetBoundsK domain c live bs =
     (case GetBlockPointer c live of
        Inl e \<Rightarrow> Inl e
      | Inr a \<Rightarrow> Inr (cellbounds_GetBoundsK (bs a) domain))"

subsection \<open>A container in its surroundings\<close>

text \<open>
  The operations below change more than the container: they allocate variables and write
  to them. A \<open>world\<close> is the container \<open>this\<close> the member function is called on,
  the store of dense variables with its allocation counter (addresses below
  \<open>next_cell\<close> are in use), the store of face variables and the set of live blocks.
\<close>

record 't world =
  this :: MeshBlockData
  cells :: "addr \<Rightarrow> 't CellVariable"
  next_cell :: addr
  faces :: "addr \<Rightarrow> 't FaceVariable"
  live_blocks :: "addr set"

definition Add :: "addr \<Rightarrow> 't world \<Rightarrow> 't world" where
  "Add var w = w\<lparr>this := Add_cell (cells w) var (this w)\<rparr>"

definition AddFace :: "addr \<Rightarrow> 't world \<Rightarrow> 't world" where
  "AddFace var w = w\<lparr>this := Add_face (faces w) var (this w)\<rparr>"

text \<open>\<^verbatim>\<open>SetBlockPointer(std::weak_ptr<MeshBlock> pmb)\<close>\<close>

definition SetBlockPointer :: "addr option \<Rightarrow> 't world \<Rightarrow> 't world" where
  "SetBlockPointer pmb w = w\<lparr>this := (this w)\<lparr>pmy_block := pmb\<rparr>\<rparr>"

text \<open>
  \<^verbatim>\<open>SetBlockPointer(const std::shared_ptr<MeshBlockData<T>> &other)\<close>: the block
  pointer of \<open>other\<close> is fetched with \<^verbatim>\<open>GetBlockPointer\<close>, which throws when it
  has expired.
\<close>

definition SetBlockPointer_from :: "MeshBlockData \<Rightarrow> 't world \<Rightarrow> error option \<times> 't world" where
  "SetBlockPointer_from other w =
     (case GetBlockPointer other (live_blocks w) of
        Inl e \<Rightarrow> (Some e, w)
      | Inr a \<Rightarrow> (None, SetBlockPointer (Some a) w))"

text \<open>
  Modelled from the spec: \<^verbatim>\<open>CellVariable::AllocateCopy\<close>, which "duplicates its
  storage into a fresh allocation": a new object at the next free address with the
  content of the original.
\<close>

definition AllocateCopy :: "addr \<Rightarrow> 't world \<Rightarrow> addr \<times> 't world" where
  "AllocateCopy v w =
     (next_cell w, w\<lparr>cells := (cells w)(next_cell w := cells w v), next_cell := Suc (next_cell w)\<rparr>)"

text \<open>
  \<^verbatim>\<open>Copy(src, names)\<close>. The source container is another object than \<open>this\<close> and
  is only read. The loop body, then the function.
\<close>

fun copy_names_loop :: "MeshBlockData \<Rightarrow> string list \<Rightarrow> 't world \<Rightarrow> error option \<times> 't world" where
  "copy_names_loop src [] w = (None, w)"
| "copy_names_loop src (name # names) w =
     (case map_find name (varMap src) of
        Some v \<Rightarrow>
          (if IsSet OneCopy (cells w v) then copy_names_loop src names (Add v w)
           else (case AllocateCopy v w of (p, w') \<Rightarrow> copy_names_loop src names (Add p w')))
      | None \<Rightarrow> (Some (NotFoundError (''MeshBlockData::Copy did not find '' @ name)), w))"

definition Copy_names :: "MeshBlockData \<Rightarrow> string list \<Rightarrow> 't world \<Rightarrow> error option \<times> 't world" where
  "Copy_names src names w =
     (case SetBlockPointer_from src w of
        (Some e, w') \<Rightarrow> (Some e, w')
      | (None, w') \<Rightarrow> copy_names_loop src names w')"

text \<open>\<^verbatim>\<open>Copy(src)\<close>: the loop over the dense variables, the loop over the face variables.\<close>

fun copy_cells_loop :: "addr list \<Rightarrow> 't world \<Rightarrow> 't world" where
  "copy_cells_loop [] w = w"
| "copy_cells_loop (v # vs) w =
     (if IsSet OneCopy (cells w v) then copy_cells_loop vs (Add v w)
      else (case AllocateCopy v w of (p, w') \<Rightarrow> copy_cells_loop vs (Add p w')))"

fun copy_faces_loop :: "addr list \<Rightarrow> 't world \<Rightarrow> error option \<times> 't world" where
  "copy_faces_loop [] w = (None, w)"
| "copy_faces_loop (v # vs) w =
     (if fIsSet OneCopy (faces w v) then copy_faces_loop vs (AddFace v w)
      else (Some (UnsupportedOperationError ''Non-oneCopy face variables are not yet supported''), w))"

definition Copy :: "MeshBlockData \<Rightarrow> 't world \<Rightarrow> error option \<times> 't world" where
  "Copy src w =
     (case SetBlockPointer_from src w of
        (Some e, w') \<Rightarrow> (Some e, w')
      | (None, w') \<Rightarrow> copy_faces_loop (faceVector src) (copy_cells_loop (varVector src) w'))"

text \<open>
  \<^verbatim>\<open>AllocateSparse\<close>. Line 206 of the header tests \<^verbatim>\<open>var.IsSparse()\<close>, a
  member call on the \<^verbatim>\<open>std::shared_ptr\<close> itself, which has no such member: as
  written, the function cannot be instantiated and no call of it runs. The definition is
  the function with that one call repaired to \<^verbatim>\<open>var->IsSparse()\<close>, the test on
  the variable that the message next to it describes; it is what a sequence of calls runs
  for \<open>OpAllocateSparse\<close>.
\<close>

definition AllocateSparse :: "string \<Rightarrow> 't world \<Rightarrow> (error + addr) \<times> 't world" where
  "AllocateSparse l w =
     (if \<not> HasCellVariable l (this w) then
        (Inl (NotFoundError (''Tried to allocate sparse variable '' @ [CHR 0x27] @ l @ [CHR 0x27]
                @ '', but no such sparse variable exists'')), w)
      else
        (case GetCellVarPtr l (this w) of
           Inl e \<Rightarrow> (Inl e, w)
         | Inr var \<Rightarrow>
             (if \<not> IsSparse (cells w var) then
                (Inl (InvalidOperationError (''Tried to allocate non-sparse variable '' @ l)), w)
              else (Inr var, w\<lparr>cells := (cells w)(var := Allocate (cells w var))\<rparr>))))"

text \<open>
  Modelled from the spec: \<^verbatim>\<open>Add(label, metadata)\<close>, declared in the header and
  defined elsewhere: it "creates and inserts a new dense VariableRecord" and "fails with
  DuplicateNameError if label already present among dense records"; "a non-Sparse record is
  always Allocated once added" and "a Sparse record may exist in Unallocated state".
\<close>

definition new_CellVariable :: "string \<Rightarrow> MetadataFlag set \<Rightarrow> 't CellVariable" where
  "new_CellVariable l md =
     \<lparr>label = l, metadata = md,
      alloc = (if Sparse \<in> md then Unallocated else Allocated), data = []\<rparr>"

definition Add_label :: "string \<Rightarrow> MetadataFlag set \<Rightarrow> 't world \<Rightarrow> error option \<times> 't world" where
  "Add_label l md w =
     (if HasCellVariable l (this w) then (Some (DuplicateNameError l), w)
      else (None, Add (next_cell w)
              (w\<lparr>cells := (cells w)(next_cell w := new_CellVariable l md),
                 next_cell := Suc (next_cell w)\<rparr>)))"

text \<open>
  Modelled from the spec: \<^verbatim>\<open>Remove(label)\<close>, declared in the header and defined
  elsewhere: it "erases the record from both structures" and "fails with NotFoundError if
  absent".
\<close>

definition Remove :: "string \<Rightarrow> 't world \<Rightarrow> error option \<times> 't world" where
  "Remove l w =
     (case map_find l (varMap (this w)) of
        None \<Rightarrow> (Some (NotFoundError l), w)
      | Some p \<Rightarrow>
          (None, w\<lparr>this := (this w)\<lparr>varVector := removeAll p (varVector (this w)),
                                    varMap := map_erase l (varMap (this w))\<rparr>\<rparr>))"

subsection \<open>Sequences of calls\<close>

text \<open>
  The calls that change a container, and the state a call leaves behind whether it returns
  or throws (a caller may catch the exception and go on using the container).
\<close>

datatype op =
    OpAdd addr
  | OpAddFace addr
  | OpAddLabel string "MetadataFlag set"
  | OpCopy MeshBlockData
  | OpCopyNames MeshBlockData "string list"
  | OpAllocateSparse string
  | OpSetBlockPointer "addr option"
  | OpRemove string

fun exec :: "op \<Rightarrow> 't world \<Rightarrow> 't world" where
  "exec (OpAdd p) w = Add p w"
| "exec (OpAddFace p) w = AddFace p w"
| "exec (OpAddLabel l md) w = snd (Add_label l md w)"
| "exec (OpCopy src) w = snd (Copy src w)"
| "exec (OpCopyNames src names) w = snd (Copy_names src names w)"
| "exec (OpAllocateSparse l) w = snd (AllocateSparse l w)"
| "exec (OpSetBlockPointer pmb) w = SetBlockPointer pmb w"
| "exec (OpRemove l) w = snd (Remove l w)"

fun run :: "op list \<Rightarrow> 't world \<Rightarrow> 't world" where
  "run [] w = w"
| "run (x # xs) w = run xs (exec x w)"

subsection \<open>The body shared by the two copy loops\<close>

text \<open>
  Both \<^verbatim>\<open>Copy\<close> functions treat a dense variable of the source in the same way;
  \<open>copy_one\<close> names that body, for the proofs.
\<close>

definition copy_one :: "addr \<Rightarrow> 't world \<Rightarrow> 't world" where
  "copy_one v w =
     (if IsSet OneCopy (cells w v) then Add v w
      else (case AllocateCopy v w of (p, w') \<Rightarrow> Add p w'))"

text \<open>
  The pointer the body inserts for the source variable \<open>v\<close>, and what relates it to
  \<open>v\<close> once the copy has ended in \<open>w'\<close>: it is \<open>v\<close> itself when \<open>v\<close> is
  tagged \<^verbatim>\<open>OneCopy\<close>; otherwise it is an address that was not in use before the
  copy and holds the content \<open>v\<close> had.
\<close>

definition copied_ptr :: "addr \<Rightarrow> 't world \<Rightarrow> addr" where
  "copied_ptr v w = (if IsSet OneCopy (cells w v) then v else next_cell w)"

definition copy_relation :: "'t world \<Rightarrow> 't world \<Rightarrow> addr \<Rightarrow> addr \<Rightarrow> bool" where
  "copy_relation w w' v p =
     (if IsSet OneCopy (cells w v) then p = v
      else next_cell w \<le> p \<and> p < next_cell w' \<and> cells w' p = cells w v)"


subsection \<open>Conditions on sequences of calls\<close>

text \<open>
  A call hands the container only shared pointers to objects that exist: addresses below
  the allocation counter.
\<close>

fun op_ok :: "op \<Rightarrow> 't world \<Rightarrow> bool" where
  "op_ok (OpAdd p) w = (p < next_cell w)"
| "op_ok (OpCopy src) w = (\<forall>v \<in> set (varVector src). v < next_cell w)"
| "op_ok (OpCopyNames src names) w = (\<forall>v \<in> snd ` set (varMap src). v < next_cell w)"
| "op_ok _ w = True"

fun ops_ok :: "op list \<Rightarrow> 't world \<Rightarrow> bool" where
  "ops_ok [] w = True"
| "ops_ok (x # xs) w = (op_ok x w \<and> ops_ok xs (exec x w))"

fun is_remove :: "op \<Rightarrow> bool" where
  "is_remove (OpRemove l) = True"
| "is_remove _ = False"




text \<open>The map after the assignments \<^verbatim>\<open>m[k] = v\<close> of a list of pairs, in order.\<close>

definition map_assign_all :: "(string \<times> 'v) list \<Rightarrow> 'v std_map \<Rightarrow> 'v std_map" where
  "map_assign_all ins m = foldl (\<lambda>m (k, v). map_assign k v m) m ins"


subsection \<open>Consistency of the ordered sequence and the name map\<close>

text \<open>
  One-to-one correspondence: the entries of the map are exactly the pairs of a record of
  the vector and its label, and neither structure repeats a record.
\<close>

definition consistent_dense :: "MeshBlockData \<Rightarrow> (addr \<Rightarrow> 't CellVariable) \<Rightarrow> bool" where
  "consistent_dense c cs =
     (distinct (varVector c) \<and> map_ok (varMap c)
      \<and> set (varMap c) = (\<lambda>p. (label (cs p), p)) ` set (varVector c))"

definition consistent_face :: "MeshBlockData \<Rightarrow> (addr \<Rightarrow> 't FaceVariable) \<Rightarrow> bool" where
  "consistent_face c fs =
     (distinct (faceVector c) \<and> map_ok (faceMap c)
      \<and> set (faceMap c) = (\<lambda>p. (flabel (fs p), p)) ` set (faceVector c))"

text \<open>
  What every sequence of calls maintains (\<^verbatim>\<open>Remove\<close> apart): the map is ordered,
  the dense pointers of the container are in use, and the map sends a label to the record
  added last among those of the sequence that carry the label.
\<close>

definition dense_inv :: "'t world \<Rightarrow> bool" where
  "dense_inv w =
     (map_ok (varMap (this w))
      \<and> (\<forall>p \<in> set (varVector (this w)). p < next_cell w)
      \<and> (\<forall>l. map_find l (varMap (this w))
              = find (\<lambda>p. label (cells w p) = l) (rev (varVector (this w)))))"

definition face_inv :: "'t world \<Rightarrow> bool" where
  "face_inv w =
     (map_ok (faceMap (this w))
      \<and> (\<forall>l. map_find l (faceMap (this w))
              = find (\<lambda>p. flabel (faces w p) = l) (rev (faceVector (this w)))))"

subsection \<open>The communication routines\<close>

text \<open>
  The header only declares them (lines 380 to 394); what is known of each is its return
  type.
\<close>

datatype comm_routine =
    ResetBoundaryCellVariables
  | SetupPersistentMPI
  | SetBoundaries
  | SendBoundaryBuffers
  | ReceiveAndSetBoundariesWithWait
  | ReceiveBoundaryBuffers
  | StartReceiving
  | ClearBoundary
  | SendFluxCorrection
  | ReceiveFluxCorrection
  | RestrictBoundaries
  | ProlongateBoundaries

datatype return_type = Void | TaskStatus

fun declared_return :: "comm_routine \<Rightarrow> return_type" where
  "declared_return ResetBoundaryCellVariables = Void"
| "declared_return SetupPersistentMPI = Void"
| "declared_return SetBoundaries = TaskStatus"
| "declared_return SendBoundaryBuffers = TaskStatus"
| "declared_return ReceiveAndSetBoundariesWithWait = TaskStatus"
| "declared_return ReceiveBoundaryBuffers = TaskStatus"
| "declared_return StartReceiving = TaskStatus"
| "declared_return ClearBoundary = TaskStatus"
| "declared_return SendFluxCorrection = TaskStatus"
| "declared_return ReceiveFluxCorrection = TaskStatus"
| "declared_return RestrictBoundaries = Void"
| "declared_return ProlongateBoundaries = Void"

subsection \<open>The pack overloads\<close>

text \<open>
  The overloads that take a sparse-id list are declared in the header and defined
  elsewhere; each is a parameter \<open>canon\<close> of the overload that calls it. The
  output pointers \<^verbatim>\<open>vmap_out\<close> and \<^verbatim>\<open>keys_out\<close> are passed on as they are,
  and so is the container the member function is called on (\<open>'s\<close>).

  Five overloads make a call that one overload only can take: those of lines 286 to 292,
  295 to 299, 314 to 319, 337 to 341 and 348 to 352.
\<close>

definition PackVariablesAndFluxes_vars_flxs ::
  "(string list \<Rightarrow> string list \<Rightarrow> int list \<Rightarrow> 'm \<Rightarrow> 'k \<Rightarrow> 's \<Rightarrow> 'r)
     \<Rightarrow> string list \<Rightarrow> string list \<Rightarrow> 'm \<Rightarrow> 'k \<Rightarrow> 's \<Rightarrow> 'r" where
  "PackVariablesAndFluxes_vars_flxs canon var_names flx_names vmap_out keys_out =
     canon var_names flx_names [] vmap_out keys_out"

definition PackVariablesAndFluxes_names_ids ::
  "(string list \<Rightarrow> string list \<Rightarrow> int list \<Rightarrow> 'm \<Rightarrow> 'k \<Rightarrow> 's \<Rightarrow> 'r)
     \<Rightarrow> string list \<Rightarrow> int list \<Rightarrow> 'm \<Rightarrow> 'k \<Rightarrow> 's \<Rightarrow> 'r" where
  "PackVariablesAndFluxes_names_ids canon names sparse_ids vmap_out keys_out =
     canon names names sparse_ids vmap_out keys_out"

definition PackVariablesAndFluxes_flags ::
  "(MetadataFlag list \<Rightarrow> int list \<Rightarrow> 'm \<Rightarrow> 'k \<Rightarrow> 's \<Rightarrow> 'r)
     \<Rightarrow> MetadataFlag list \<Rightarrow> 'm \<Rightarrow> 'k \<Rightarrow> 's \<Rightarrow> 'r" where
  "PackVariablesAndFluxes_flags canon flags vmap_out keys_out =
     canon flags [] vmap_out keys_out"

definition PackVariables_names ::
  "(string list \<Rightarrow> int list \<Rightarrow> bool \<Rightarrow> 'm \<Rightarrow> 'k \<Rightarrow> 's \<Rightarrow> 'r)
     \<Rightarrow> string list \<Rightarrow> bool \<Rightarrow> 'm \<Rightarrow> 'k \<Rightarrow> 's \<Rightarrow> 'r" where
  "PackVariables_names canon names coarse vmap_out key_out =
     canon names [] coarse vmap_out key_out"

definition PackVariables_flags ::
  "(MetadataFlag list \<Rightarrow> int list \<Rightarrow> bool \<Rightarrow> 'm \<Rightarrow> 'k \<Rightarrow> 's \<Rightarrow> 'r)
     \<Rightarrow> MetadataFlag list \<Rightarrow> bool \<Rightarrow> 'm \<Rightarrow> 'k \<Rightarrow> 's \<Rightarrow> 'r" where
  "PackVariables_flags canon flags coarse vmap_out key_out =
     canon flags [] coarse vmap_out key_out"

text \<open>
  The three other overloads pass \<^verbatim>\<open>{}\<close> where several overloads accept it, each
  through a constructor of another vector type, so that none is a better match: the call
  is ambiguous, and the overload cannot be instantiated. The model of each is the list of
  the results of the overloads the call could mean.
  \<^item> Lines 301 to 306, \<^verbatim>\<open>PackVariablesAndFluxes(names, {}, vmap_out, keys_out)\<close>:
    \<^verbatim>\<open>{}\<close> is the flux-name list of the overload of line 286 or the sparse-id list of
    the overload of line 295.
  \<^item> Lines 326 to 330, \<^verbatim>\<open>PackVariablesAndFluxes({}, vmap_out, keys_out)\<close>:
    \<^verbatim>\<open>{}\<close> is the name list of the overload of line 301, the flag list of the
    overload of line 314 or the sparse-id list of the overload of line 322.
  \<^item> Lines 358 to 361, \<^verbatim>\<open>PackVariables({}, coarse, vmap_out, key_out)\<close>:
    \<^verbatim>\<open>{}\<close> is the name list of the overload of line 337, the flag list of the
    overload of line 348 or the sparse-id list of the overload of line 355.
\<close>

definition PackVariablesAndFluxes_names_readings ::
  "(string list \<Rightarrow> string list \<Rightarrow> int list \<Rightarrow> 'm \<Rightarrow> 'k \<Rightarrow> 's \<Rightarrow> 'r)
     \<Rightarrow> string list \<Rightarrow> 'm \<Rightarrow> 'k \<Rightarrow> 's \<Rightarrow> 'r list" where
  "PackVariablesAndFluxes_names_readings canon names vmap_out keys_out s =
     [PackVariablesAndFluxes_vars_flxs canon names [] vmap_out keys_out s,
      PackVariablesAndFluxes_names_ids canon names [] vmap_out keys_out s]"

definition PackVariablesAndFluxes_all_readings ::
  "(string list \<Rightarrow> string list \<Rightarrow> int list \<Rightarrow> 'm \<Rightarrow> 'k \<Rightarrow> 's \<Rightarrow> 'r)
     \<Rightarrow> (MetadataFlag list \<Rightarrow> int list \<Rightarrow> 'm \<Rightarrow> 'k \<Rightarrow> 's \<Rightarrow> 'r)
     \<Rightarrow> (int list \<Rightarrow> 'm \<Rightarrow> 'k \<Rightarrow> 's \<Rightarrow> 'r) \<Rightarrow> 'm \<Rightarrow> 'k \<Rightarrow> 's \<Rightarrow> 'r list" where
  "PackVariablesAndFluxes_all_readings canon_names canon_flags canon_all vmap_out keys_out s =
     PackVariablesAndFluxes_names_readings canon_names [] vmap_out keys_out s
     @ [PackVariablesAndFluxes_flags canon_flags [] vmap_out keys_out s,
        canon_all [] vmap_out keys_out s]"

definition PackVariables_all_readings ::
  "(string list \<Rightarrow> int list \<Rightarrow> bool \<Rightarrow> 'm \<Rightarrow> 'k \<Rightarrow> 's \<Rightarrow> 'r)
     \<Rightarrow> (MetadataFlag list \<Rightarrow> int list \<Rightarrow> bool \<Rightarrow> 'm \<Rightarrow> 'k \<Rightarrow> 's \<Rightarrow> 'r)
     \<Rightarrow> (int list \<Rightarrow> bool \<Rightarrow> 'm \<Rightarrow> 'k \<Rightarrow> 's \<Rightarrow> 'r) \<Rightarrow> bool \<Rightarrow> 'm \<Rightarrow> 'k \<Rightarrow> 's \<Rightarrow> 'r list" where
  "PackVariables_all_readings canon_names canon_flags canon_all coarse vmap_out key_out s =
     [PackVariables_names canon_names [] coarse vmap_out key_out s,
      PackVariables_flags canon_flags [] coarse vmap_out key_out s,
      canon_all [] coarse vmap_out key_out s]"

subsection \<open>Example states\<close>

text \<open>
  A store of dense variables with two objects labelled \<open>rho\<close> (different contents), a
  \<^verbatim>\<open>OneCopy\<close> variable and an unallocated sparse one; a store of face variables;
  a world whose container is empty and whose only block, at address 0, is alive.
\<close>

definition ex_cells :: "addr \<Rightarrow> nat CellVariable" where
  "ex_cells =
     (\<lambda>_. \<lparr>label = [], metadata = {}, alloc = Allocated, data = []\<rparr>)
       (0 := \<lparr>label = ''rho'', metadata = {}, alloc = Allocated, data = [1, 2]\<rparr>,
        1 := \<lparr>label = ''p'', metadata = {OneCopy}, alloc = Allocated, data = [3]\<rparr>,
        2 := \<lparr>label = ''s'', metadata = {Sparse}, alloc = Unallocated, data = []\<rparr>,
        3 := \<lparr>label = ''rho'', metadata = {}, alloc = Allocated, data = [7, 8]\<rparr>)"

definition ex_faces :: "addr \<Rightarrow> nat FaceVariable" where
  "ex_faces =
     (\<lambda>_. \<lparr>flabel = [], fmetadata = {}, fdata = []\<rparr>)
       (0 := \<lparr>flabel = ''B'', fmetadata = {OneCopy}, fdata = [[1], [2], [3]]\<rparr>,
        1 := \<lparr>flabel = ''E'', fmetadata = {}, fdata = [[4], [5], [6]]\<rparr>,
        2 := \<lparr>flabel = ''rho'', fmetadata = {OneCopy}, fdata = [[0], [0], [0]]\<rparr>,
        3 := \<lparr>flabel = ''p'', fmetadata = {OneCopy}, fdata = [[0], [0], [0]]\<rparr>)"

definition ex_world :: "nat world" where
  "ex_world =
     \<lparr>this = empty_container, cells = ex_cells, next_cell = 4, faces = ex_faces,
      live_blocks = {0}\<rparr>"

text \<open>
  A container holding the dense variables \<open>rho\<close> (address 0) and \<open>s\<close> (address 2,
  sparse); and a source for copies whose block is alive, holding \<open>rho\<close>, the
  \<^verbatim>\<open>OneCopy\<close> variable \<open>p\<close> and the \<^verbatim>\<open>OneCopy\<close> face variable \<open>B\<close>.
\<close>

definition ex_world2 :: "nat world" where
  "ex_world2 = Add 2 (Add 0 ex_world)"

definition ex_src :: MeshBlockData where
  "ex_src = this (AddFace 0 (Add 1 (Add 0 (SetBlockPointer (Some 0) ex_world))))"


section \<open>Properties\<close>

subsection \<open>The ordered map\<close>

lemma map_find_assign:
  "map_find l (map_assign k v m) = (if l = k then Some v else map_find l m)"
  by (induction m) (auto simp: map_find_def)

lemma keys_assign: "set (map_keys (map_assign k v m)) = insert k (set (map_keys m))"
  by (induction m) (force simp: map_keys_def)+

lemma map_ok_assign: "map_ok m \<Longrightarrow> map_ok (map_assign k v m)"
proof (induction m)
  case Nil
  then show ?case by (simp add: map_ok_def map_keys_def)
next
  case (Cons e m)
  obtain k' v' where e: "e = (k', v')" by (cases e)
  have ok: "map_ok m" using Cons.prems by (simp add: map_ok_def map_keys_def)
  have ks: "set (map fst (map_assign k v m)) = insert k (set (map fst m))"
    using keys_assign [of k v m] by (simp add: map_keys_def)
  show ?case using Cons.prems Cons.IH [OF ok] ks
    by (auto simp: e map_ok_def map_keys_def)
qed

lemma map_ok_unique:
  "map_ok m \<Longrightarrow> map_ok m' \<Longrightarrow> set (map_keys m) = set (map_keys m') \<Longrightarrow> map_keys m = map_keys m'"
  unfolding map_ok_def by (metis strict_sorted_equal)

subsection \<open>Equality of containers\<close>

lemma keys_of_set: "set (keys_of c) = label_set c"
  by (simp add: keys_of_def label_set_def)

text \<open>
  C2 (as amended). Containers that compare equal under \<^verbatim>\<open>==\<close> have the same set
  of labels (dense and face together). Containers whose dense label sets agree and whose
  face label sets agree compare equal. So for two containers in which no label is the label
  of a dense variable and also the label of a face variable, \<^verbatim>\<open>a == b\<close> is true
  exactly if their label sets are the same. Neither the pointers nor the store of variable
  contents enter the comparison.
\<close>

theorem container_eq_characterised:
  assumes "map_ok (varMap a)" "map_ok (faceMap a)" "map_ok (varMap b)" "map_ok (faceMap b)"
  shows "(container_eq a b \<longrightarrow> label_set a = label_set b)
       \<and> (set (map_keys (varMap a)) = set (map_keys (varMap b))
            \<and> set (map_keys (faceMap a)) = set (map_keys (faceMap b)) \<longrightarrow> container_eq a b)
       \<and> ((set (map_keys (varMap a)) \<union> set (map_keys (varMap b)))
              \<inter> (set (map_keys (faceMap a)) \<union> set (map_keys (faceMap b))) = {} \<longrightarrow>
            container_eq a b = (label_set a = label_set b))"
proof -
  have A: "label_set a = label_set b" if "container_eq a b"
  proof -
    from that have "set (keys_of a) = set (keys_of b)" by (simp add: container_eq_def)
    then show ?thesis by (simp only: keys_of_set)
  qed
  have B: "container_eq a b"
    if h: "set (map_keys (varMap a)) = set (map_keys (varMap b))
            \<and> set (map_keys (faceMap a)) = set (map_keys (faceMap b))"
  proof -
    have "map_keys (varMap a) = map_keys (varMap b)"
      using h assms(1,3) by (intro map_ok_unique) simp_all
    moreover have "map_keys (faceMap a) = map_keys (faceMap b)"
      using h assms(2,4) by (intro map_ok_unique) simp_all
    ultimately show ?thesis by (simp add: container_eq_def keys_of_def)
  qed
  have C: "container_eq a b = (label_set a = label_set b)"
    if k: "(set (map_keys (varMap a)) \<union> set (map_keys (varMap b)))
              \<inter> (set (map_keys (faceMap a)) \<union> set (map_keys (faceMap b))) = {}"
  proof
    assume "container_eq a b"
    then show "label_set a = label_set b" by (rule A)
  next
    assume e: "label_set a = label_set b"
    have "set (map_keys (varMap a)) = set (map_keys (varMap b))
            \<and> set (map_keys (faceMap a)) = set (map_keys (faceMap b))"
      using k e unfolding label_set_def by blast
    then show "container_eq a b" by (rule B)
  qed
  show ?thesis using A B C by blast
qed

text \<open>
  Two containers that hold different objects labelled \<open>rho\<close>, with different contents,
  compare equal.
\<close>

theorem container_eq_characterised_witness:
  "map_ok (varMap (Add_cell ex_cells 0 empty_container))
   \<and> map_ok (varMap (Add_cell ex_cells 3 empty_container))
   \<and> data (ex_cells 0) \<noteq> data (ex_cells 3)
   \<and> set (map_keys (varMap (Add_cell ex_cells 0 empty_container))) = {''rho''}
   \<and> set (map_keys (varMap (Add_cell ex_cells 3 empty_container))) = {''rho''}
   \<and> set (map_keys (faceMap (Add_cell ex_cells 0 empty_container))) = {}
   \<and> set (map_keys (faceMap (Add_cell ex_cells 3 empty_container))) = {}
   \<and> container_eq (Add_cell ex_cells 0 empty_container) (Add_cell ex_cells 3 empty_container)
   \<and> label_set (Add_cell ex_cells 0 empty_container) = label_set (Add_cell ex_cells 3 empty_container)"
proof -
  let ?a = "Add_cell ex_cells 0 empty_container"
  let ?b = "Add_cell ex_cells 3 empty_container"
  have ok: "map_ok (varMap ?a)" "map_ok (faceMap ?a)" "map_ok (varMap ?b)" "map_ok (faceMap ?b)"
    by (simp_all add: Add_cell_def empty_container_def ex_cells_def map_ok_def map_keys_def)
  have ks: "set (map_keys (varMap ?a)) = {''rho''}" "set (map_keys (varMap ?b)) = {''rho''}"
    "set (map_keys (faceMap ?a)) = {}" "set (map_keys (faceMap ?b)) = {}"
    by (simp_all add: Add_cell_def empty_container_def ex_cells_def map_keys_def)
  have d: "data (ex_cells 0) \<noteq> data (ex_cells 3)" by (simp add: ex_cells_def)
  from container_eq_characterised [OF ok] ks have "container_eq ?a ?b" "label_set ?a = label_set ?b"
    by simp_all
  with ok ks d show ?thesis by blast
qed

text \<open>
  The claim as stated fails: one container holds \<open>rho\<close> as a dense and \<open>p\<close> as a
  face variable, the other \<open>p\<close> as a dense and \<open>rho\<close> as a face variable. The label
  sets are the same, the key sequences are \<open>[rho, p]\<close> and \<open>[p, rho]\<close>.
\<close>

theorem container_eq_counterexample:
  "label_set (Add_face ex_faces 3 (Add_cell ex_cells 0 empty_container))
     = label_set (Add_face ex_faces 2 (Add_cell ex_cells 1 empty_container))
   \<and> \<not> container_eq (Add_face ex_faces 3 (Add_cell ex_cells 0 empty_container))
                      (Add_face ex_faces 2 (Add_cell ex_cells 1 empty_container))"
  by (auto simp add: label_set_def container_eq_def keys_of_def map_keys_def Add_face_def
      Add_cell_def empty_container_def ex_cells_def ex_faces_def)

subsection \<open>The owning mesh block\<close>

lemma exec_live: "live_blocks (exec x w) = live_blocks (w::'t world)"
proof -
  have L1: "\<And>src names (w::'t world). live_blocks (snd (copy_names_loop src names w)) = live_blocks w"
  proof -
    fix src names and w :: "'t world"
    show "live_blocks (snd (copy_names_loop src names w)) = live_blocks w"
      by (induction names arbitrary: w)
         (auto simp: Add_def AllocateCopy_def split: option.splits)
  qed
  have L2: "\<And>vs (w::'t world). live_blocks (copy_cells_loop vs w) = live_blocks w"
  proof -
    fix vs and w :: "'t world"
    show "live_blocks (copy_cells_loop vs w) = live_blocks w"
      by (induction vs arbitrary: w) (auto simp: Add_def AllocateCopy_def)
  qed
  have L3: "\<And>vs (w::'t world). live_blocks (snd (copy_faces_loop vs w)) = live_blocks w"
  proof -
    fix vs and w :: "'t world"
    show "live_blocks (snd (copy_faces_loop vs w)) = live_blocks w"
      by (induction vs arbitrary: w) (auto simp: AddFace_def)
  qed
  show ?thesis
    by (cases x)
       (auto simp: Add_def AddFace_def Add_label_def Copy_def Copy_names_def SetBlockPointer_from_def
          SetBlockPointer_def AllocateSparse_def Remove_def L1 L2 L3
          split: sum.splits option.splits prod.splits)
qed

lemma run_live: "live_blocks (run xs w) = live_blocks w"
  by (induction xs arbitrary: w) (simp_all add: exec_live)

text \<open>
  C9. When the weak reference to the block has expired, \<^verbatim>\<open>GetBlockPointer\<close>,
  \<^verbatim>\<open>GetParentPointer\<close>, \<^verbatim>\<open>SetAllowedDt\<close> and \<^verbatim>\<open>GetBoundsI/J/K\<close> fail
  with the stale-reference error; the block store is neither read (the result is the same
  for every store and every block function) nor written. The container does not keep the
  block alive: once the block is gone the reference is expired, and no sequence of calls
  on a container changes the set of live blocks.
\<close>

theorem stale_block_reference:
  "(expired (pmy_block c) live \<longrightarrow>
      GetBlockPointer c live = Inl (StaleReferenceError ''Invalid pointer to MeshBlock!'')
    \<and> GetParentPointer c live = Inl (StaleReferenceError ''Invalid pointer to MeshBlock!'')
    \<and> SetAllowedDt set_dt dt c live bs = (Some (StaleReferenceError ''Invalid pointer to MeshBlock!''), bs)
    \<and> GetBoundsI bounds_i domain c live bs = Inl (StaleReferenceError ''Invalid pointer to MeshBlock!'')
    \<and> GetBoundsJ bounds_j domain c live bs = Inl (StaleReferenceError ''Invalid pointer to MeshBlock!'')
    \<and> GetBoundsK bounds_k domain c live bs = Inl (StaleReferenceError ''Invalid pointer to MeshBlock!''))
   \<and> (pmy_block c = Some a \<longrightarrow> expired (pmy_block c) (live - {a}))
   \<and> live_blocks (run xs w) = live_blocks w"
  by (simp add: GetBlockPointer_def GetParentPointer_def SetAllowedDt_def GetBoundsI_def
      GetBoundsJ_def GetBoundsK_def expired_def run_live)

theorem stale_block_reference_witness:
  "expired (pmy_block empty_container) {0}
   \<and> GetBlockPointer empty_container {0} = Inl (StaleReferenceError ''Invalid pointer to MeshBlock!'')
   \<and> SetAllowedDt (\<lambda>dt b. dt) (5::nat) empty_container {0} (\<lambda>_. 1)
        = (Some (StaleReferenceError ''Invalid pointer to MeshBlock!''), (\<lambda>_. 1))
   \<and> GetBoundsI (\<lambda>b d. (b::nat) + d) (2::nat) empty_container {0} (\<lambda>_. 1)
        = Inl (StaleReferenceError ''Invalid pointer to MeshBlock!'')
   \<and> pmy_block (empty_container\<lparr>pmy_block := Some 0\<rparr>) = Some 0
   \<and> GetBlockPointer (empty_container\<lparr>pmy_block := Some 0\<rparr>) {0} = Inr 0
   \<and> expired (pmy_block (empty_container\<lparr>pmy_block := Some 0\<rparr>)) ({0} - {0})"
proof -
  have e: "expired (pmy_block empty_container) {0}"
    by (simp add: expired_def empty_container_def)
  have p: "pmy_block (empty_container\<lparr>pmy_block := Some 0\<rparr>) = Some 0" by simp
  have g: "GetBlockPointer (empty_container\<lparr>pmy_block := Some 0\<rparr>) {0} = Inr 0"
    by (simp add: GetBlockPointer_def expired_def)
  show ?thesis
    using e p g
      stale_block_reference [of empty_container "{0}" "\<lambda>dt b. dt" "5::nat" "\<lambda>_. 1"
        "\<lambda>b d. b + d" "2::nat" "\<lambda>b d. b + d" "\<lambda>b d. b + d" 0 "[]" ex_world]
      stale_block_reference [of "empty_container\<lparr>pmy_block := Some 0\<rparr>" "{0}" "\<lambda>dt b. dt" "5::nat" "\<lambda>_. 1"
        "\<lambda>b d. b + d" "2::nat" "\<lambda>b d. b + d" "\<lambda>b d. b + d" 0 "[]" ex_world]
    by simp
qed

subsection \<open>Sparse allocation\<close>

lemma HasCellVariable_iff: "HasCellVariable l c \<longleftrightarrow> map_find l (varMap c) \<noteq> None"
  by (simp add: HasCellVariable_def map_count_def split: option.splits)

lemma GetCellVarPtr_Inr: "GetCellVarPtr l c = Inr p \<longleftrightarrow> map_find l (varMap c) = Some p"
  by (simp add: GetCellVarPtr_def split: option.splits)

lemma Allocate_allocated: "alloc (Allocate v) = Allocated"
  by (cases "alloc v") (simp_all add: Allocate_def)

lemma Allocate_idem: "alloc v = Allocated \<Longrightarrow> Allocate v = v"
  by (simp add: Allocate_def)

text \<open>
  C4 is about a function that does not run as written (line 206, see the definition). With
  the call repaired, \<^verbatim>\<open>AllocateSparse(label)\<close> fails with the not-found error when
  the label is not in the dense map, fails with the invalid-operation error when the
  variable is not tagged Sparse, and otherwise returns the variable and leaves it
  allocated; on a sparse variable that is allocated already it returns the variable and
  changes nothing. The last two rest on \<^verbatim>\<open>CellVariable::Allocate\<close> as the
  specification describes it.
\<close>

lemma AllocateSparse_repaired:
  "(\<not> HasCellVariable l (this w) \<longrightarrow>
      AllocateSparse l w =
        (Inl (NotFoundError (''Tried to allocate sparse variable '' @ [CHR 0x27] @ l @ [CHR 0x27]
                @ '', but no such sparse variable exists'')), w))
   \<and> (GetCellVarPtr l (this w) = Inr p \<and> \<not> IsSparse (cells w p) \<longrightarrow>
      AllocateSparse l w = (Inl (InvalidOperationError (''Tried to allocate non-sparse variable '' @ l)), w))
   \<and> (GetCellVarPtr l (this w) = Inr p \<and> IsSparse (cells w p) \<longrightarrow>
      AllocateSparse l w = (Inr p, w\<lparr>cells := (cells w)(p := (cells w p)\<lparr>alloc := Allocated\<rparr>)\<rparr>))
   \<and> (GetCellVarPtr l (this w) = Inr p \<and> IsSparse (cells w p) \<and> alloc (cells w p) = Allocated \<longrightarrow>
      AllocateSparse l w = (Inr p, w))"
proof (intro conjI impI)
  assume "\<not> HasCellVariable l (this w)"
  then show "AllocateSparse l w =
        (Inl (NotFoundError (''Tried to allocate sparse variable '' @ [CHR 0x27] @ l @ [CHR 0x27]
                @ '', but no such sparse variable exists'')), w)"
    by (simp add: AllocateSparse_def)
next
  assume h: "GetCellVarPtr l (this w) = Inr p \<and> \<not> IsSparse (cells w p)"
  then have "HasCellVariable l (this w)" by (simp add: HasCellVariable_iff GetCellVarPtr_Inr)
  with h show "AllocateSparse l w = (Inl (InvalidOperationError (''Tried to allocate non-sparse variable '' @ l)), w)"
    by (simp add: AllocateSparse_def)
next
  assume h: "GetCellVarPtr l (this w) = Inr p \<and> IsSparse (cells w p)"
  then have "HasCellVariable l (this w)" by (simp add: HasCellVariable_iff GetCellVarPtr_Inr)
  moreover have "Allocate (cells w p) = (cells w p)\<lparr>alloc := Allocated\<rparr>"
    by (cases "alloc (cells w p)") (simp_all add: Allocate_def)
  ultimately show "AllocateSparse l w = (Inr p, w\<lparr>cells := (cells w)(p := (cells w p)\<lparr>alloc := Allocated\<rparr>)\<rparr>)"
    using h by (simp add: AllocateSparse_def)
next
  assume h: "GetCellVarPtr l (this w) = Inr p \<and> IsSparse (cells w p) \<and> alloc (cells w p) = Allocated"
  then have "HasCellVariable l (this w)" by (simp add: HasCellVariable_iff GetCellVarPtr_Inr)
  with h show "AllocateSparse l w = (Inr p, w)"
    by (simp add: AllocateSparse_def Allocate_idem)
qed

lemma ex_world2_this:
  "this ex_world2 = \<lparr>pmy_block = None, varVector = [0, 2], faceVector = [],
                     varMap = [(''rho'', 0), (''s'', 2)], faceMap = []\<rparr>"
  by (simp add: ex_world2_def Add_def Add_cell_def ex_world_def ex_cells_def empty_container_def)

lemma ex_world2_cells: "cells ex_world2 = ex_cells"
  by (simp add: ex_world2_def Add_def ex_world_def)

lemma AllocateSparse_repaired_example:
  "\<not> HasCellVariable ''q'' (this ex_world2)
   \<and> fst (AllocateSparse ''q'' ex_world2) =
        Inl (NotFoundError ''Tried to allocate sparse variable 'q', but no such sparse variable exists'')
   \<and> GetCellVarPtr ''rho'' (this ex_world2) = Inr 0 \<and> \<not> IsSparse (cells ex_world2 0)
   \<and> AllocateSparse ''rho'' ex_world2 =
        (Inl (InvalidOperationError ''Tried to allocate non-sparse variable rho''), ex_world2)
   \<and> GetCellVarPtr ''s'' (this ex_world2) = Inr 2 \<and> IsSparse (cells ex_world2 2)
   \<and> alloc (cells ex_world2 2) = Unallocated
   \<and> fst (AllocateSparse ''s'' ex_world2) = Inr 2
   \<and> alloc (cells (snd (AllocateSparse ''s'' ex_world2)) 2) = Allocated
   \<and> AllocateSparse ''s'' (snd (AllocateSparse ''s'' ex_world2))
        = (Inr 2, snd (AllocateSparse ''s'' ex_world2))"
proof -
  have a: "\<not> HasCellVariable ''q'' (this ex_world2)"
    by (simp add: HasCellVariable_def map_count_def map_find_def ex_world2_this)
  have b: "GetCellVarPtr ''rho'' (this ex_world2) = Inr 0 \<and> \<not> IsSparse (cells ex_world2 0)"
    by (simp add: GetCellVarPtr_def map_find_def ex_world2_this ex_world2_cells IsSparse_def IsSet_def ex_cells_def)
  have c: "GetCellVarPtr ''s'' (this ex_world2) = Inr 2 \<and> IsSparse (cells ex_world2 2)"
    by (simp add: GetCellVarPtr_def map_find_def ex_world2_this ex_world2_cells IsSparse_def IsSet_def ex_cells_def)
  have u: "alloc (cells ex_world2 2) = Unallocated"
    by (simp add: ex_world2_cells ex_cells_def)
  let ?w = "ex_world2\<lparr>cells := (cells ex_world2)(2 := (cells ex_world2 2)\<lparr>alloc := Allocated\<rparr>)\<rparr>"
  have s: "AllocateSparse ''s'' ex_world2 = (Inr 2, ?w)"
    using AllocateSparse_repaired [of "''s''" ex_world2 2] c by blast
  have d: "GetCellVarPtr ''s'' (this ?w) = Inr 2 \<and> IsSparse (cells ?w 2) \<and> alloc (cells ?w 2) = Allocated"
    using c by (simp add: IsSparse_def IsSet_def)
  have i: "AllocateSparse ''s'' ?w = (Inr 2, ?w)"
    using AllocateSparse_repaired [of "''s''" ?w 2] d by blast
  show ?thesis
    using a b c u s i
      AllocateSparse_repaired [of "''q''" ex_world2 0] AllocateSparse_repaired [of "''rho''" ex_world2 0]
    by simp
qed


subsection \<open>Adding a label twice\<close>

text \<open>
  C3 (as amended). \<^verbatim>\<open>Add(label, metadata)\<close>, as the specification describes it,
  fails with the duplicate-name error on a label that is present among the dense variables
  and leaves everything unchanged. \<^verbatim>\<open>Add(record)\<close> makes no such check: handed a
  record whose label is present, it appends the record to the ordered sequence and
  overwrites the entry of the label in the name map.
\<close>

theorem Add_duplicate_label:
  "(HasCellVariable l (this w) \<longrightarrow> Add_label l md w = (Some (DuplicateNameError l), w))
   \<and> (HasCellVariable (label (cells w var)) (this w) \<longrightarrow>
        varVector (this (Add var w)) = varVector (this w) @ [var]
      \<and> GetCellVarPtr (label (cells w var)) (this (Add var w)) = Inr var)"
  by (simp add: Add_label_def Add_def Add_cell_def GetCellVarPtr_def map_find_assign)

theorem Add_duplicate_label_witness:
  "HasCellVariable ''rho'' (this ex_world2)
   \<and> Add_label ''rho'' {} ex_world2 = (Some (DuplicateNameError ''rho''), ex_world2)
   \<and> label (cells ex_world2 3) = ''rho''
   \<and> varVector (this (Add 3 ex_world2)) = [0, 2, 3]
   \<and> GetCellVarPtr ''rho'' (this (Add 3 ex_world2)) = Inr 3"
proof -
  have a: "HasCellVariable ''rho'' (this ex_world2)"
    by (simp add: HasCellVariable_def map_count_def map_find_def ex_world2_this)
  have b: "label (cells ex_world2 3) = ''rho''"
    by (simp add: ex_world2_cells ex_cells_def)
  have v: "varVector (this ex_world2) = [0, 2]" by (simp add: ex_world2_this)
  show ?thesis
    using a b v Add_duplicate_label [of "''rho''" ex_world2 "{}" 3] by simp
qed

text \<open>
  The claim as stated fails for \<^verbatim>\<open>Add(record)\<close>: the container holds \<open>rho\<close>, and
  adding the other object labelled \<open>rho\<close> changes both the sequence and the map.
\<close>

theorem Add_duplicate_counterexample:
  "HasCellVariable (label (cells ex_world2 3)) (this ex_world2)
   \<and> this (Add 3 ex_world2) \<noteq> this ex_world2
   \<and> varVector (this (Add 3 ex_world2)) = [0, 2, 3]
   \<and> varMap (this (Add 3 ex_world2)) = [(''rho'', 3), (''s'', 2)]"
  by (simp add: HasCellVariable_def map_count_def map_find_def ex_world2_this ex_world2_cells
      ex_cells_def Add_def Add_cell_def)


subsection \<open>Return types of the communication routines\<close>

text \<open>
  C7 (as amended). \<^verbatim>\<open>SetBoundaries\<close>, \<^verbatim>\<open>SendBoundaryBuffers\<close>,
  \<^verbatim>\<open>ReceiveAndSetBoundariesWithWait\<close>, \<^verbatim>\<open>ReceiveBoundaryBuffers\<close>,
  \<^verbatim>\<open>StartReceiving\<close>, \<^verbatim>\<open>ClearBoundary\<close>, \<^verbatim>\<open>SendFluxCorrection\<close> and
  \<^verbatim>\<open>ReceiveFluxCorrection\<close> are declared to return a task status, and they are the
  only ones: \<^verbatim>\<open>SetupPersistentMPI\<close>, \<^verbatim>\<open>ResetBoundaryCellVariables\<close>,
  \<^verbatim>\<open>RestrictBoundaries\<close> and \<^verbatim>\<open>ProlongateBoundaries\<close> return nothing.
\<close>

theorem comm_routines_return:
  "(declared_return r = TaskStatus) =
     (r \<in> {SetBoundaries, SendBoundaryBuffers, ReceiveAndSetBoundariesWithWait,
            ReceiveBoundaryBuffers, StartReceiving, ClearBoundary, SendFluxCorrection,
            ReceiveFluxCorrection})
   \<and> (declared_return r = Void) =
     (r \<in> {SetupPersistentMPI, ResetBoundaryCellVariables, RestrictBoundaries,
            ProlongateBoundaries})"
  by (cases r) simp_all

text \<open>The claim as stated fails: \<^verbatim>\<open>SetupPersistentMPI\<close> is declared \<^verbatim>\<open>void\<close>.\<close>

theorem comm_routines_counterexample:
  "declared_return SetupPersistentMPI \<noteq> TaskStatus"
  by simp

subsection \<open>The pack overloads\<close>

text \<open>
  C8. The overloads of lines 286 to 292, 314 to 319, 337 to 341 and 348 to 352 are, as
  functions, the overload with the sparse-id list applied to the empty list. The calls in
  the three other overloads have more than one meaning, and the meanings differ: the
  overload of \<^verbatim>\<open>PackVariablesAndFluxes\<close> that takes one name list is the overload
  with the sparse-id list applied to the names, the names as flux names and no sparse ids
  under one of them, and to the names and no flux names under the other. For the name list
  \<open>[rho]\<close> and a function that returns its first three arguments the two results are
  different.
\<close>

theorem pack_overloads_readings:
  "PackVariablesAndFluxes_vars_flxs canon_vf = (\<lambda>var_names flx_names. canon_vf var_names flx_names [])
   \<and> PackVariablesAndFluxes_flags canon_ff = (\<lambda>flags. canon_ff flags [])
   \<and> PackVariables_names canon_v = (\<lambda>names. canon_v names [])
   \<and> PackVariables_flags canon_f = (\<lambda>flags. canon_f flags [])
   \<and> PackVariablesAndFluxes_names_readings canon_vf names vmap keys s
       = [canon_vf names [] [] vmap keys s, canon_vf names names [] vmap keys s]
   \<and> PackVariablesAndFluxes_all_readings canon_vf canon_ff canon_af vmap keys s
       = [canon_vf [] [] [] vmap keys s, canon_vf [] [] [] vmap keys s,
          canon_ff [] [] vmap keys s, canon_af [] vmap keys s]
   \<and> PackVariables_all_readings canon_v canon_f canon_a coarse vmap key s'
       = [canon_v [] [] coarse vmap key s', canon_f [] [] coarse vmap key s',
          canon_a [] coarse vmap key s']
   \<and> PackVariablesAndFluxes_names_readings (\<lambda>v f ids m k s. (v, f, ids)) [''rho''] () () ()
       = [([''rho''], [], []), ([''rho''], [''rho''], [])]"
  by (intro conjI ext)
     (simp_all add: PackVariablesAndFluxes_vars_flxs_def PackVariablesAndFluxes_names_ids_def
        PackVariablesAndFluxes_flags_def PackVariables_names_def PackVariables_flags_def
        PackVariablesAndFluxes_names_readings_def PackVariablesAndFluxes_all_readings_def
        PackVariables_all_readings_def)

subsection \<open>Deriving a container from another\<close>

lemma copy_names_loop_Cons:
  "copy_names_loop src (name # names) w =
     (case map_find name (varMap src) of
        Some v \<Rightarrow> copy_names_loop src names (copy_one v w)
      | None \<Rightarrow> (Some (NotFoundError (''MeshBlockData::Copy did not find '' @ name)), w))"
  by (simp add: copy_one_def split: option.splits prod.splits)

lemma copy_cells_loop_Cons: "copy_cells_loop (v # vs) w = copy_cells_loop vs (copy_one v w)"
  by (simp add: copy_one_def split: prod.splits)

declare copy_names_loop.simps(2) [simp del] copy_cells_loop.simps(2) [simp del]
declare copy_names_loop_Cons [simp] copy_cells_loop_Cons [simp]

lemma copy_one_this:
  "this (copy_one v w) =
     (this w)\<lparr>varVector := varVector (this w) @ [copied_ptr v w],
              varMap := map_assign (label (cells w v)) (copied_ptr v w) (varMap (this w))\<rparr>"
  by (simp add: copy_one_def copied_ptr_def Add_def Add_cell_def AllocateCopy_def)

lemma copy_one_cells:
  "cells (copy_one v w) =
     (if IsSet OneCopy (cells w v) then cells w else (cells w)(next_cell w := cells w v))"
  by (simp add: copy_one_def Add_def AllocateCopy_def)

lemma copy_one_next:
  "next_cell (copy_one v w) = (if IsSet OneCopy (cells w v) then next_cell w else Suc (next_cell w))"
  by (simp add: copy_one_def Add_def AllocateCopy_def)

lemma copy_one_rest:
  "faces (copy_one v w) = faces w" "live_blocks (copy_one v w) = live_blocks w"
  by (simp_all add: copy_one_def Add_def AllocateCopy_def)

lemma copy_one_old: "q < next_cell w \<Longrightarrow> cells (copy_one v w) q = cells w q"
  by (simp add: copy_one_cells)

lemma copy_one_new: "cells (copy_one v w) (copied_ptr v w) = cells w v"
  by (simp add: copy_one_cells copied_ptr_def)

lemma copy_one_next_le: "next_cell w \<le> next_cell (copy_one v w)"
  by (simp add: copy_one_next)

lemma copied_ptr_less: "v < next_cell w \<Longrightarrow> copied_ptr v w < next_cell (copy_one v w)"
  by (simp add: copy_one_next copied_ptr_def)

lemma copy_names_loop_missing:
  "find (\<lambda>n. map_find n (varMap src) = None) names = Some n \<Longrightarrow>
   fst (copy_names_loop src names w) = Some (NotFoundError (''MeshBlockData::Copy did not find '' @ n))"
proof (induction names arbitrary: w)
  case Nil
  then show ?case by simp
next
  case (Cons a names)
  show ?case
  proof (cases "map_find a (varMap src)")
    case None
    with Cons.prems show ?thesis by simp
  next
    case (Some v)
    with Cons.prems have "find (\<lambda>n. map_find n (varMap src) = None) names = Some n" by simp
    from Cons.IH [OF this] Some show ?thesis by simp
  qed
qed

lemma copy_names_loop_present:
  "\<forall>n \<in> set names. map_find n (varMap src) \<noteq> None \<Longrightarrow>
   fst (copy_names_loop src names w) = None
   \<and> length (varVector (this (snd (copy_names_loop src names w))))
       = length (varVector (this w)) + length names"
proof (induction names arbitrary: w)
  case Nil
  then show ?case by simp
next
  case (Cons a names)
  then obtain v where v: "map_find a (varMap src) = Some v" by auto
  have "\<forall>n \<in> set names. map_find n (varMap src) \<noteq> None" using Cons.prems by simp
  from Cons.IH [OF this, of "copy_one v w"] v show ?case
    by (simp add: copy_one_this)
qed

lemma copy_names_loop_faces:
  "copy_names_loop (src\<lparr>faceVector := fv, faceMap := fm\<rparr>) names w = copy_names_loop src names w"
  by (induction names arbitrary: w) (simp_all split: option.splits)

lemma SetBlockPointer_from_live:
  "\<not> expired (pmy_block src) (live_blocks w) \<Longrightarrow>
   SetBlockPointer_from src w = (None, SetBlockPointer (pmy_block src) w)"
  by (auto simp: SetBlockPointer_from_def GetBlockPointer_def expired_def split: option.splits)

lemma SetBlockPointer_from_expired:
  "expired (pmy_block src) (live_blocks w) \<Longrightarrow>
   SetBlockPointer_from src w = (Some (StaleReferenceError ''Invalid pointer to MeshBlock!''), w)"
  by (simp add: SetBlockPointer_from_def GetBlockPointer_def)

text \<open>
  C10 (as amended). When the block of the source is alive, \<^verbatim>\<open>Copy(src, names)\<close>
  throws the error naming the first requested name that is absent from the dense map of
  the source, so it throws an error naming a missing name whenever one is absent; when all
  names are present it inserts one record per name and skips none. When the block
  reference of the source has expired it throws the stale-pointer error before any name is
  looked up. The face members of the source are never consulted.
\<close>

theorem Copy_names_missing:
  "(\<not> expired (pmy_block src) (live_blocks w)
      \<and> find (\<lambda>n. map_find n (varMap src) = None) names = Some n \<longrightarrow>
      fst (Copy_names src names w) = Some (NotFoundError (''MeshBlockData::Copy did not find '' @ n)))
   \<and> (\<not> expired (pmy_block src) (live_blocks w)
      \<and> (\<exists>m \<in> set names. map_find m (varMap src) = None) \<longrightarrow>
      (\<exists>m \<in> set names. map_find m (varMap src) = None
         \<and> fst (Copy_names src names w) = Some (NotFoundError (''MeshBlockData::Copy did not find '' @ m))))
   \<and> (\<not> expired (pmy_block src) (live_blocks w)
      \<and> (\<forall>m \<in> set names. map_find m (varMap src) \<noteq> None) \<longrightarrow>
      fst (Copy_names src names w) = None
      \<and> length (varVector (this (snd (Copy_names src names w))))
          = length (varVector (this w)) + length names)
   \<and> (expired (pmy_block src) (live_blocks w) \<longrightarrow>
      Copy_names src names w = (Some (StaleReferenceError ''Invalid pointer to MeshBlock!''), w))
   \<and> Copy_names (src\<lparr>faceVector := fv, faceMap := fm\<rparr>) names w = Copy_names src names w"
proof -
  have A: "fst (Copy_names src names w) = Some (NotFoundError (''MeshBlockData::Copy did not find '' @ k))"
    if "\<not> expired (pmy_block src) (live_blocks w)"
      and "find (\<lambda>n. map_find n (varMap src) = None) names = Some k" for k
    using that by (simp add: Copy_names_def SetBlockPointer_from_live copy_names_loop_missing)
  have F: "\<exists>m \<in> set names. map_find m (varMap src) = None
         \<and> fst (Copy_names src names w) = Some (NotFoundError (''MeshBlockData::Copy did not find '' @ m))"
    if h: "\<not> expired (pmy_block src) (live_blocks w)"
      and e: "\<exists>m \<in> set names. map_find m (varMap src) = None"
  proof -
    from e have "find (\<lambda>n. map_find n (varMap src) = None) names \<noteq> None"
      by (auto simp: find_None_iff)
    then obtain k where k: "find (\<lambda>n. map_find n (varMap src) = None) names = Some k" by auto
    then have "k \<in> set names \<and> map_find k (varMap src) = None"
      by (auto simp: find_Some_iff)
    with A [OF h k] show ?thesis by blast
  qed
  have B: "fst (Copy_names src names w) = None
      \<and> length (varVector (this (snd (Copy_names src names w))))
          = length (varVector (this w)) + length names"
    if h: "\<not> expired (pmy_block src) (live_blocks w)"
      and p: "\<forall>n \<in> set names. map_find n (varMap src) \<noteq> None"
    using h copy_names_loop_present [OF p, of "SetBlockPointer (pmy_block src) w"]
    by (simp add: Copy_names_def SetBlockPointer_from_live SetBlockPointer_def)
  have C: "Copy_names src names w = (Some (StaleReferenceError ''Invalid pointer to MeshBlock!''), w)"
    if "expired (pmy_block src) (live_blocks w)"
    using that by (simp add: Copy_names_def SetBlockPointer_from_expired)
  have D: "Copy_names (src\<lparr>faceVector := fv, faceMap := fm\<rparr>) names w = Copy_names src names w"
    by (simp add: Copy_names_def SetBlockPointer_from_def GetBlockPointer_def copy_names_loop_faces
        split: sum.splits)
  show ?thesis using A [of n] F B C D by blast
qed

lemma ex_src_eq:
  "ex_src = \<lparr>pmy_block = Some 0, varVector = [0, 1], faceVector = [0],
             varMap = [(''p'', 1), (''rho'', 0)], faceMap = [(''B'', 0)]\<rparr>"
  by (simp add: ex_src_def AddFace_def Add_face_def Add_def Add_cell_def SetBlockPointer_def
      ex_world_def ex_cells_def ex_faces_def empty_container_def)

lemma ex_world_sel:
  "this ex_world = empty_container" "cells ex_world = ex_cells" "next_cell ex_world = 4"
  "faces ex_world = ex_faces" "live_blocks ex_world = {0}"
  by (simp_all add: ex_world_def)

theorem Copy_names_missing_witness:
  "\<not> expired (pmy_block ex_src) (live_blocks ex_world)
   \<and> find (\<lambda>n. map_find n (varMap ex_src) = None) [''rho'', ''B'', ''q''] = Some ''B''
   \<and> fst (Copy_names ex_src [''rho'', ''B'', ''q''] ex_world)
       = Some (NotFoundError ''MeshBlockData::Copy did not find B'')
   \<and> map_find ''rho'' (varMap ex_src) \<noteq> None \<and> map_find ''p'' (varMap ex_src) \<noteq> None
   \<and> fst (Copy_names ex_src [''rho'', ''p''] ex_world) = None
   \<and> length (varVector (this (snd (Copy_names ex_src [''rho'', ''p''] ex_world)))) = 2
   \<and> expired (pmy_block empty_container) (live_blocks ex_world)
   \<and> Copy_names empty_container [''rho''] ex_world
       = (Some (StaleReferenceError ''Invalid pointer to MeshBlock!''), ex_world)"
proof -
  have a: "\<not> expired (pmy_block ex_src) (live_blocks ex_world)"
    by (simp add: expired_def ex_src_eq ex_world_sel)
  have b: "find (\<lambda>n. map_find n (varMap ex_src) = None) [''rho'', ''B'', ''q''] = Some ''B''"
    by (simp add: ex_src_eq map_find_def)
  have c: "\<forall>n \<in> set [''rho'', ''p'']. map_find n (varMap ex_src) \<noteq> None"
    by (simp add: ex_src_eq map_find_def)
  have d: "expired (pmy_block empty_container) (live_blocks ex_world)"
    by (simp add: expired_def empty_container_def)
  have l: "length (varVector (this ex_world)) = 0"
    by (simp add: ex_world_sel empty_container_def)
  show ?thesis
    using a b c d l
      Copy_names_missing [of ex_src ex_world "[''rho'', ''B'', ''q'']" "''B''" "[]" "[]"]
      Copy_names_missing [of ex_src ex_world "[''rho'', ''p'']" "''B''" "[]" "[]"]
      Copy_names_missing [of empty_container ex_world "[''rho'']" "''B''" "[]" "[]"]
    by simp
qed

text \<open>
  The claim as stated fails: the name \<open>rho\<close> is absent from the dense map of a
  default-constructed source, whose block reference is empty, and the error thrown is the
  stale-pointer error, which does not name \<open>rho\<close>.
\<close>

theorem Copy_names_counterexample:
  "map_find ''rho'' (varMap empty_container) = None
   \<and> fst (Copy_names empty_container [''rho''] ex_world)
       = Some (StaleReferenceError ''Invalid pointer to MeshBlock!'')
   \<and> fst (Copy_names empty_container [''rho''] ex_world)
       \<noteq> Some (NotFoundError ''MeshBlockData::Copy did not find rho'')"
  by (simp add: Copy_names_def SetBlockPointer_from_def GetBlockPointer_def expired_def
      empty_container_def map_find_def)


lemma AddFace_sel:
  "faces (AddFace v w) = faces w" "cells (AddFace v w) = cells w"
  "next_cell (AddFace v w) = next_cell w" "live_blocks (AddFace v w) = live_blocks w"
  "varVector (this (AddFace v w)) = varVector (this w)"
  "varMap (this (AddFace v w)) = varMap (this w)"
  "faceVector (this (AddFace v w)) = faceVector (this w) @ [v]"
  "faceMap (this (AddFace v w)) = map_assign (flabel (faces w v)) v (faceMap (this w))"
  "pmy_block (this (AddFace v w)) = pmy_block (this w)"
  by (simp_all add: AddFace_def Add_face_def)








lemma copy_relation_SetBlockPointer [simp]:
  "copy_relation (SetBlockPointer b w) w' = copy_relation w w'"
  by (simp add: copy_relation_def SetBlockPointer_def fun_eq_iff)

lemma SetBlockPointer_sel [simp]:
  "cells (SetBlockPointer b w) = cells w" "next_cell (SetBlockPointer b w) = next_cell w"
  "faces (SetBlockPointer b w) = faces w" "live_blocks (SetBlockPointer b w) = live_blocks w"
  "varVector (this (SetBlockPointer b w)) = varVector (this w)"
  "varMap (this (SetBlockPointer b w)) = varMap (this w)"
  "faceVector (this (SetBlockPointer b w)) = faceVector (this w)"
  "faceMap (this (SetBlockPointer b w)) = faceMap (this w)"
  "pmy_block (this (SetBlockPointer b w)) = b"
  by (simp_all add: SetBlockPointer_def)








subsection \<open>A record stays where it was added\<close>


lemma Add_sel:
  "cells (Add p w) = cells w" "next_cell (Add p w) = next_cell w"
  "faces (Add p w) = faces w" "live_blocks (Add p w) = live_blocks w"
  "varVector (this (Add p w)) = varVector (this w) @ [p]"
  "varMap (this (Add p w)) = map_assign (label (cells w p)) p (varMap (this w))"
  "faceVector (this (Add p w)) = faceVector (this w)"
  "faceMap (this (Add p w)) = faceMap (this w)"
  "pmy_block (this (Add p w)) = pmy_block (this w)"
  by (simp_all add: Add_def Add_cell_def)

lemma map_assign_all_simps [simp]:
  "map_assign_all [] m = m"
  "map_assign_all ((k, v) # ins) m = map_assign_all ins (map_assign k v m)"
  by (simp_all add: map_assign_all_def)








lemma ex_Add0:
  "Add 0 ex_world = ex_world\<lparr>this := \<lparr>pmy_block = None, varVector = [0], faceVector = [],
                                      varMap = [(''rho'', 0)], faceMap = []\<rparr>\<rparr>"
  by (simp add: Add_def Add_cell_def ex_world_def ex_cells_def empty_container_def)




subsection \<open>Consistency of the ordered sequence and the name map\<close>

lemma dense_inv_step:
  assumes inv: "dense_inv w"
    and p: "p < next_cell w'"
    and le: "next_cell w \<le> next_cell w'"
    and old: "\<forall>q < next_cell w. label (cells w' q) = label (cells w q)"
    and vec: "varVector (this w') = varVector (this w) @ [p]"
    and mp: "varMap (this w') = map_assign (label (cells w' p)) p (varMap (this w))"
  shows "dense_inv w'"
proof -
  have ok: "map_ok (varMap (this w'))" using inv by (simp add: mp dense_inv_def map_ok_assign)
  have b: "\<forall>q \<in> set (varVector (this w')). q < next_cell w'"
    using inv p le by (auto simp: vec dense_inv_def)
  have f: "find (\<lambda>q. label (cells w' q) = l) (rev (varVector (this w)))
         = find (\<lambda>q. label (cells w q) = l) (rev (varVector (this w)))" for l
    using inv old by (intro find_cong) (auto simp: dense_inv_def)
  have "map_find l (varMap (this w'))
          = find (\<lambda>q. label (cells w' q) = l) (rev (varVector (this w')))" for l
    using inv f [of l] by (auto simp: mp vec map_find_assign dense_inv_def)
  with ok b show ?thesis by (simp add: dense_inv_def)
qed

lemma dense_inv_same:
  assumes inv: "dense_inv w"
    and le: "next_cell w \<le> next_cell w'"
    and old: "\<forall>q < next_cell w. label (cells w' q) = label (cells w q)"
    and vec: "varVector (this w') = varVector (this w)"
    and mp: "varMap (this w') = varMap (this w)"
  shows "dense_inv w'"
proof -
  have f: "find (\<lambda>q. label (cells w' q) = l) (rev (varVector (this w)))
         = find (\<lambda>q. label (cells w q) = l) (rev (varVector (this w)))" for l
    using inv old by (intro find_cong) (auto simp: dense_inv_def)
  show ?thesis using inv le f by (auto simp: dense_inv_def vec mp)
qed

lemma face_inv_same:
  "face_inv w \<Longrightarrow> faces w' = faces w \<Longrightarrow> faceVector (this w') = faceVector (this w) \<Longrightarrow>
   faceMap (this w') = faceMap (this w) \<Longrightarrow> face_inv w'"
  by (simp add: face_inv_def)

lemma face_inv_AddFace: "face_inv w \<Longrightarrow> face_inv (AddFace p w)"
  by (auto simp: face_inv_def AddFace_sel map_ok_assign map_find_assign)

lemma dense_inv_Add: "dense_inv w \<Longrightarrow> p < next_cell w \<Longrightarrow> dense_inv (Add p w)"
  by (rule dense_inv_step [where p = p]) (simp_all add: Add_sel)

lemma dense_inv_copy_one:
  assumes "dense_inv w" "v < next_cell w"
  shows "dense_inv (copy_one v w)"
proof (rule dense_inv_step [OF assms(1), where p = "copied_ptr v w"])
  show "copied_ptr v w < next_cell (copy_one v w)" using assms(2) by (rule copied_ptr_less)
  show "next_cell w \<le> next_cell (copy_one v w)" by (rule copy_one_next_le)
  show "\<forall>q < next_cell w. label (cells (copy_one v w) q) = label (cells w q)"
    by (simp add: copy_one_old)
  show "varVector (this (copy_one v w)) = varVector (this w) @ [copied_ptr v w]"
    by (simp add: copy_one_this)
  show "varMap (this (copy_one v w))
      = map_assign (label (cells (copy_one v w) (copied_ptr v w))) (copied_ptr v w) (varMap (this w))"
    by (simp add: copy_one_this copy_one_new)
qed

lemma copy_one_faces_part:
  "faces (copy_one v w) = faces w" "faceVector (this (copy_one v w)) = faceVector (this w)"
  "faceMap (this (copy_one v w)) = faceMap (this w)"
  by (simp_all add: copy_one_rest copy_one_this)

lemma copy_cells_loop_inv:
  "dense_inv w \<Longrightarrow> face_inv w \<Longrightarrow> \<forall>v \<in> set vs. v < next_cell w \<Longrightarrow>
   dense_inv (copy_cells_loop vs w) \<and> face_inv (copy_cells_loop vs w)"
proof (induction vs arbitrary: w)
  case Nil
  then show ?case by simp
next
  case (Cons v vs)
  have 1: "dense_inv (copy_one v w)" using Cons.prems by (simp add: dense_inv_copy_one)
  have 2: "face_inv (copy_one v w)"
    using Cons.prems(2) by (rule face_inv_same) (simp_all add: copy_one_faces_part)
  have 3: "\<forall>u \<in> set vs. u < next_cell (copy_one v w)"
    using Cons.prems(3) copy_one_next_le [of w v] by auto
  from Cons.IH [OF 1 2 3] show ?case by simp
qed

lemma copy_names_loop_inv:
  "dense_inv w \<Longrightarrow> face_inv w \<Longrightarrow> \<forall>v \<in> snd ` set (varMap src). v < next_cell w \<Longrightarrow>
   dense_inv (snd (copy_names_loop src names w)) \<and> face_inv (snd (copy_names_loop src names w))"
proof (induction names arbitrary: w)
  case Nil
  then show ?case by simp
next
  case (Cons a names)
  show ?case
  proof (cases "map_find a (varMap src)")
    case None
    with Cons.prems show ?thesis by simp
  next
    case (Some v)
    then have "(a, v) \<in> set (varMap src)" by (simp add: map_find_def map_of_SomeD)
    then have v: "v < next_cell w" using Cons.prems(3) by force
    have 1: "dense_inv (copy_one v w)" using Cons.prems v by (simp add: dense_inv_copy_one)
    have 2: "face_inv (copy_one v w)"
      using Cons.prems(2) by (rule face_inv_same) (simp_all add: copy_one_faces_part)
    have 3: "\<forall>u \<in> snd ` set (varMap src). u < next_cell (copy_one v w)"
      using Cons.prems(3) copy_one_next_le [of w v] by auto
    from Cons.IH [OF 1 2 3] Some show ?thesis by simp
  qed
qed

lemma copy_faces_loop_inv:
  "dense_inv w \<Longrightarrow> face_inv w \<Longrightarrow>
   dense_inv (snd (copy_faces_loop fv w)) \<and> face_inv (snd (copy_faces_loop fv w))"
proof (induction fv arbitrary: w)
  case Nil
  then show ?case by simp
next
  case (Cons f fv)
  have 1: "dense_inv (AddFace f w)"
    using Cons.prems(1) by (rule dense_inv_same) (simp_all add: AddFace_sel)
  have 2: "face_inv (AddFace f w)" using Cons.prems(2) by (rule face_inv_AddFace)
  from Cons.IH [OF 1 2] Cons.prems show ?case by simp
qed

lemma SetBlockPointer_inv:
  "dense_inv w \<Longrightarrow> dense_inv (SetBlockPointer b w)" "face_inv w \<Longrightarrow> face_inv (SetBlockPointer b w)"
  by (simp_all add: dense_inv_def face_inv_def)

lemma exec_inv:
  assumes d: "dense_inv w" and f: "face_inv w" and ok: "op_ok x w" and nr: "\<not> is_remove x"
  shows "dense_inv (exec x w) \<and> face_inv (exec x w)"
proof (cases x)
  case (OpAdd p)
  have "face_inv (Add p w)" using f by (rule face_inv_same) (simp_all add: Add_sel)
  with d ok OpAdd show ?thesis by (simp add: dense_inv_Add)
next
  case (OpAddFace p)
  have "dense_inv (AddFace p w)" using d by (rule dense_inv_same) (simp_all add: AddFace_sel)
  with f OpAddFace show ?thesis by (simp add: face_inv_AddFace)
next
  case (OpAddLabel l md)
  show ?thesis
  proof (cases "HasCellVariable l (this w)")
    case True
    with d f OpAddLabel show ?thesis by (simp add: Add_label_def)
  next
    case False
    let ?w' = "snd (Add_label l md w)"
    have 1: "dense_inv ?w'"
      using d by (rule dense_inv_step [where p = "next_cell w"])
                 (simp_all add: Add_label_def False Add_sel)
    have 2: "face_inv ?w'"
      using f by (rule face_inv_same) (simp_all add: Add_label_def False Add_sel)
    from 1 2 OpAddLabel show ?thesis by simp
  qed
next
  case (OpCopy src)
  show ?thesis
  proof (cases "expired (pmy_block src) (live_blocks w)")
    case True
    with d f OpCopy show ?thesis by (simp add: Copy_def SetBlockPointer_from_expired)
  next
    case False
    let ?w0 = "SetBlockPointer (pmy_block src) w"
    have "\<forall>v \<in> set (varVector src). v < next_cell ?w0" using ok OpCopy by simp
    from copy_cells_loop_inv [OF SetBlockPointer_inv(1) [OF d] SetBlockPointer_inv(2) [OF f] this]
    have "dense_inv (copy_cells_loop (varVector src) ?w0) \<and> face_inv (copy_cells_loop (varVector src) ?w0)" .
    then have "dense_inv (snd (copy_faces_loop (faceVector src) (copy_cells_loop (varVector src) ?w0)))
        \<and> face_inv (snd (copy_faces_loop (faceVector src) (copy_cells_loop (varVector src) ?w0)))"
      by (simp add: copy_faces_loop_inv)
    then show ?thesis using OpCopy False by (simp add: Copy_def SetBlockPointer_from_live)
  qed
next
  case (OpCopyNames src names)
  show ?thesis
  proof (cases "expired (pmy_block src) (live_blocks w)")
    case True
    with d f OpCopyNames show ?thesis by (simp add: Copy_names_def SetBlockPointer_from_expired)
  next
    case False
    let ?w0 = "SetBlockPointer (pmy_block src) w"
    have "\<forall>v \<in> snd ` set (varMap src). v < next_cell ?w0" using ok OpCopyNames by simp
    from copy_names_loop_inv [OF SetBlockPointer_inv(1) [OF d] SetBlockPointer_inv(2) [OF f] this]
    show ?thesis using OpCopyNames False by (simp add: Copy_names_def SetBlockPointer_from_live)
  qed
next
  case (OpAllocateSparse l)
  let ?w' = "snd (AllocateSparse l w)"
  have lab: "label (Allocate u) = label u" for u :: "'a CellVariable"
    by (cases "alloc u") (simp_all add: Allocate_def)
  have 1: "dense_inv ?w'"
    using d by (rule dense_inv_same) (auto simp: AllocateSparse_def lab split: sum.splits)
  have 2: "face_inv ?w'"
    using f by (rule face_inv_same) (auto simp: AllocateSparse_def split: sum.splits)
  from 1 2 OpAllocateSparse show ?thesis by simp
next
  case (OpSetBlockPointer b)
  with d f show ?thesis by (simp add: SetBlockPointer_inv)
next
  case (OpRemove l)
  with nr show ?thesis by simp
qed

lemma run_inv:
  "dense_inv w \<Longrightarrow> face_inv w \<Longrightarrow> ops_ok xs w \<Longrightarrow> \<forall>x \<in> set xs. \<not> is_remove x \<Longrightarrow>
   dense_inv (run xs w) \<and> face_inv (run xs w)"
proof (induction xs arbitrary: w)
  case Nil
  then show ?case by simp
next
  case (Cons x xs)
  have "dense_inv (exec x w) \<and> face_inv (exec x w)"
    using Cons.prems by (intro exec_inv) simp_all
  with Cons.IH [of "exec x w"] Cons.prems show ?case by simp
qed


lemma map_ok_distinct: "map_ok m \<Longrightarrow> distinct (map fst m)"
  by (simp add: map_ok_def map_keys_def strict_sorted_iff)

lemma map_find_mem: "map_ok m \<Longrightarrow> (map_find l m = Some p) = ((l, p) \<in> set m)"
  by (simp add: map_find_def map_ok_distinct)

lemma find_mem: "find P xs = Some p \<Longrightarrow> p \<in> set xs \<and> P p"
  by (auto simp: find_Some_iff)

lemma find_distinct:
  assumes "distinct (map f xs)" "p \<in> set xs"
  shows "find (\<lambda>q. f q = f p) (rev xs) = Some p"
proof -
  have "find (\<lambda>q. f q = f p) (rev xs) \<noteq> None" using assms(2) by (auto simp: find_None_iff)
  then obtain q where q: "find (\<lambda>q. f q = f p) (rev xs) = Some q" by auto
  then have "q \<in> set xs \<and> f q = f p" using find_mem [OF q] by simp
  moreover have "inj_on f (set xs)" using assms(1) by (simp add: distinct_map)
  ultimately have "q = p" using assms(2) by (auto dest: inj_onD)
  with q show ?thesis by simp
qed

lemma one_to_one_iff:
  assumes ok: "map_ok m"
    and inv: "\<forall>l. map_find l m = find (\<lambda>p. f p = l) (rev xs)"
  shows "(distinct xs \<and> map_ok m \<and> set m = (\<lambda>p. (f p, p)) ` set xs) = distinct (map f xs)"
proof
  assume d: "distinct (map f xs)"
  have "((l, p) \<in> set m) = ((l, p) \<in> (\<lambda>p. (f p, p)) ` set xs)" for l p
  proof
    assume "(l, p) \<in> set m"
    then have "find (\<lambda>p. f p = l) (rev xs) = Some p" using ok inv by (simp add: map_find_mem [symmetric])
    from find_mem [OF this] show "(l, p) \<in> (\<lambda>p. (f p, p)) ` set xs" by auto
  next
    assume "(l, p) \<in> (\<lambda>p. (f p, p)) ` set xs"
    then have p: "p \<in> set xs" and l: "l = f p" by auto
    from find_distinct [OF d p] have "map_find l m = Some p" using inv l by simp
    then show "(l, p) \<in> set m" using ok by (simp add: map_find_mem)
  qed
  then have "set m = (\<lambda>p. (f p, p)) ` set xs" by auto
  with d ok show "distinct xs \<and> map_ok m \<and> set m = (\<lambda>p. (f p, p)) ` set xs"
    by (simp add: distinct_map)
next
  assume c: "distinct xs \<and> map_ok m \<and> set m = (\<lambda>p. (f p, p)) ` set xs"
  have "inj_on f (set xs)"
  proof (rule inj_onI)
    fix p q assume p: "p \<in> set xs" and q: "q \<in> set xs" and e: "f p = f q"
    from c p q have "(f p, p) \<in> set m" "(f q, q) \<in> set m" by auto
    then have "map_find (f p) m = Some p" "map_find (f q) m = Some q"
      using ok by (simp_all add: map_find_mem)
    with e show "p = q" by (metis option.inject)
  qed
  with c show "distinct (map f xs)" by (simp add: distinct_map)
qed

text \<open>
  C1 (as amended). In every state reached from the empty container by calls of
  \<^verbatim>\<open>Add\<close>, \<^verbatim>\<open>Copy\<close>, \<^verbatim>\<open>AllocateSparse\<close> and
  \<^verbatim>\<open>SetBlockPointer\<close> that hand it pointers to existing objects, each name map
  sends a label to the record added last among the records of the ordered sequence that
  carry this label, and to nothing if there is none. The sequence and the map are in
  one-to-one correspondence (every record of one appears in the other exactly once,
  under its label) exactly if no two entries of the sequence carry the same label; this
  holds for the dense and for the face variables.
\<close>

theorem registry_consistency:
  assumes "this w = empty_container" "ops_ok xs w" "\<forall>x \<in> set xs. \<not> is_remove x"
  shows "(\<forall>l. map_find l (varMap (this (run xs w)))
            = find (\<lambda>p. label (cells (run xs w) p) = l) (rev (varVector (this (run xs w)))))
       \<and> (\<forall>l. map_find l (faceMap (this (run xs w)))
            = find (\<lambda>p. flabel (faces (run xs w) p) = l) (rev (faceVector (this (run xs w)))))
       \<and> consistent_dense (this (run xs w)) (cells (run xs w))
           = distinct (map (\<lambda>p. label (cells (run xs w) p)) (varVector (this (run xs w))))
       \<and> consistent_face (this (run xs w)) (faces (run xs w))
           = distinct (map (\<lambda>p. flabel (faces (run xs w) p)) (faceVector (this (run xs w))))"
proof -
  have "dense_inv w" "face_inv w"
    using assms(1) by (simp_all add: dense_inv_def face_inv_def empty_container_def map_ok_def
        map_keys_def map_find_def)
  from run_inv [OF this assms(2,3)] have d: "dense_inv (run xs w)" and f: "face_inv (run xs w)"
    by simp_all
  from d have d1: "map_ok (varMap (this (run xs w)))"
    and d2: "\<forall>l. map_find l (varMap (this (run xs w)))
            = find (\<lambda>p. label (cells (run xs w) p) = l) (rev (varVector (this (run xs w))))"
    by (simp_all add: dense_inv_def)
  from f have f1: "map_ok (faceMap (this (run xs w)))"
    and f2: "\<forall>l. map_find l (faceMap (this (run xs w)))
            = find (\<lambda>p. flabel (faces (run xs w) p) = l) (rev (faceVector (this (run xs w))))"
    by (simp_all add: face_inv_def)
  show ?thesis
    using d2 f2 one_to_one_iff [OF d1 d2] one_to_one_iff [OF f1 f2]
    by (simp add: consistent_dense_def consistent_face_def)
qed

lemma ex_run3:
  "run [OpAdd 0, OpAddFace 0, OpAdd 1] ex_world =
     ex_world\<lparr>this := \<lparr>pmy_block = None, varVector = [0, 1], faceVector = [0],
                        varMap = [(''p'', 1), (''rho'', 0)], faceMap = [(''B'', 0)]\<rparr>\<rparr>"
  by (simp add: Add_def Add_cell_def AddFace_def Add_face_def ex_world_def ex_cells_def ex_faces_def
      empty_container_def)

theorem registry_consistency_witness:
  "this ex_world = empty_container
   \<and> ops_ok [OpAdd 0, OpAddFace 0, OpAdd 1] ex_world
   \<and> \<not> is_remove (OpAdd 0) \<and> \<not> is_remove (OpAddFace 0) \<and> \<not> is_remove (OpAdd 1)
   \<and> varVector (this (run [OpAdd 0, OpAddFace 0, OpAdd 1] ex_world)) = [0, 1]
   \<and> varMap (this (run [OpAdd 0, OpAddFace 0, OpAdd 1] ex_world)) = [(''p'', 1), (''rho'', 0)]
   \<and> map_find ''rho'' (varMap (this (run [OpAdd 0, OpAddFace 0, OpAdd 1] ex_world))) = Some 0
   \<and> consistent_dense (this (run [OpAdd 0, OpAddFace 0, OpAdd 1] ex_world))
        (cells (run [OpAdd 0, OpAddFace 0, OpAdd 1] ex_world))
   \<and> consistent_face (this (run [OpAdd 0, OpAddFace 0, OpAdd 1] ex_world))
        (faces (run [OpAdd 0, OpAddFace 0, OpAdd 1] ex_world))"
proof -
  have a: "this ex_world = empty_container" by (simp add: ex_world_sel)
  have b: "ops_ok [OpAdd 0, OpAddFace 0, OpAdd 1] ex_world"
    by (simp add: ex_world_def Add_def AddFace_def)
  have c: "\<forall>x \<in> set [OpAdd 0, OpAddFace 0, OpAdd 1]. \<not> is_remove x" by simp
  have d: "distinct (map (\<lambda>p. label (cells (run [OpAdd 0, OpAddFace 0, OpAdd 1] ex_world) p))
              (varVector (this (run [OpAdd 0, OpAddFace 0, OpAdd 1] ex_world))))"
    "distinct (map (\<lambda>p. flabel (faces (run [OpAdd 0, OpAddFace 0, OpAdd 1] ex_world) p))
              (faceVector (this (run [OpAdd 0, OpAddFace 0, OpAdd 1] ex_world))))"
    unfolding ex_run3 by (simp_all add: ex_world_def ex_cells_def ex_faces_def)
  have e: "varVector (this (run [OpAdd 0, OpAddFace 0, OpAdd 1] ex_world)) = [0, 1]"
    "varMap (this (run [OpAdd 0, OpAddFace 0, OpAdd 1] ex_world)) = [(''p'', 1), (''rho'', 0)]"
    unfolding ex_run3 by simp_all
  have g: "find (\<lambda>p. label (cells (run [OpAdd 0, OpAddFace 0, OpAdd 1] ex_world) p) = ''rho'')
             (rev (varVector (this (run [OpAdd 0, OpAddFace 0, OpAdd 1] ex_world)))) = Some 0"
    unfolding ex_run3 by (simp add: ex_world_def ex_cells_def)
  from registry_consistency [OF a b c] d g
  have "consistent_dense (this (run [OpAdd 0, OpAddFace 0, OpAdd 1] ex_world))
        (cells (run [OpAdd 0, OpAddFace 0, OpAdd 1] ex_world))"
    "consistent_face (this (run [OpAdd 0, OpAddFace 0, OpAdd 1] ex_world))
        (faces (run [OpAdd 0, OpAddFace 0, OpAdd 1] ex_world))"
    "map_find ''rho'' (varMap (this (run [OpAdd 0, OpAddFace 0, OpAdd 1] ex_world))) = Some 0"
    by simp_all
  with a b e show ?thesis by simp
qed

text \<open>
  The claim as stated fails: two calls of \<^verbatim>\<open>Add\<close> with different objects labelled
  \<open>rho\<close> leave both in the ordered sequence and only the second in the map.
\<close>

theorem registry_consistency_counterexample:
  "varVector (this (run [OpAdd 0, OpAdd 3] ex_world)) = [0, 3]
   \<and> varMap (this (run [OpAdd 0, OpAdd 3] ex_world)) = [(''rho'', 3)]
   \<and> \<not> consistent_dense (this (run [OpAdd 0, OpAdd 3] ex_world)) (cells (run [OpAdd 0, OpAdd 3] ex_world))"
  by (simp add: Add_def Add_cell_def ex_world_def ex_cells_def empty_container_def
      consistent_dense_def)


end
